(* ===== verification/Prelude.thy ===== *)
theory Prelude
  imports Main
begin

text \<open>
  Shared vocabulary of the development. The C++ vector code reads elements with the
  unchecked \<open>std::vector::operator[]\<close>; an index past the end is undefined behaviour.
  The model makes every such read an explicit error value \<open>Out_of_range i\<close>, so that
  an operation either returns \<open>Inr\<close> of its result or \<open>Inl\<close> of the first faulting
  index. The range-\<open>for\<close> loops of \<open>src/vector_test.cpp\<close> (which recover the index as
  \<open>&elem - &v[0]\<close>) are one combinator, \<open>for_range\<close>, over the indices
  \<open>i, i+1, \<dots>, n-1\<close>; the lemmas here characterise it once for all loops of the program.
\<close>

named_theorems mv_simps "characteristic equations of the vector operations"

datatype error = Out_of_range nat

type_synonym 'a result = "error + 'a"

type_synonym 'a mvector = "'a list"

text \<open>Sequencing of fallible steps; the first error is the result. Generic in the error type.\<close>

definition ebind :: "'e + 'a \<Rightarrow> ('a \<Rightarrow> 'e + 'b) \<Rightarrow> 'e + 'b" where
  "ebind m f = (case m of Inl e \<Rightarrow> Inl e | Inr x \<Rightarrow> f x)"

lemma ebind_simps [simp]:
  "ebind (Inl e) f = Inl e"
  "ebind (Inr x) f = f x"
  by (simp_all add: ebind_def)

lemma ebind_eq_Inr:
  "ebind m f = Inr y \<longleftrightarrow> (\<exists>x. m = Inr x \<and> f x = Inr y)"
  by (cases m) (simp_all)

text \<open>\<open>v[i]\<close> on a \<open>const std::vector&\<close>: defined only below \<open>size()\<close>.\<close>

definition subscript :: "'a list \<Rightarrow> nat \<Rightarrow> 'a result" where
  "subscript xs i = (if i < length xs then Inr (xs ! i) else Inl (Out_of_range i))"

lemma subscript_in_range [simp]: "i < length xs \<Longrightarrow> subscript xs i = Inr (xs ! i)"
  by (simp add: subscript_def)

lemma subscript_out_of_range [simp]: "length xs \<le> i \<Longrightarrow> subscript xs i = Inl (Out_of_range i)"
  by (simp add: subscript_def)

text \<open>Assignment \<open>v[i] = x\<close>: undefined behaviour past the end as well.\<close>

definition subscript_assign :: "'a list \<Rightarrow> nat \<Rightarrow> 'a \<Rightarrow> 'a list result" where
  "subscript_assign xs i x = (if i < length xs then Inr (xs[i := x]) else Inl (Out_of_range i))"

lemma subscript_assign_in_range [simp]: "i < length xs \<Longrightarrow> subscript_assign xs i x = Inr (xs[i := x])"
  by (simp add: subscript_assign_def)

lemma subscript_assign_out_of_range [simp]: "length xs \<le> i \<Longrightarrow> subscript_assign xs i x = Inl (Out_of_range i)"
  by (simp add: subscript_assign_def)

subsection \<open>The index loop\<close>

text \<open>
  \<open>for (T& elem : v) { auto i = &elem - &v[0]; body }\<close> runs the body for
  \<open>i = 0, \<dots>, size() - 1\<close>; a body that faults stops the loop with its error.
\<close>

function for_range :: "nat \<Rightarrow> nat \<Rightarrow> (nat \<Rightarrow> 's \<Rightarrow> 's result) \<Rightarrow> 's \<Rightarrow> 's result" where
  "for_range i n body s =
     (if i < n then (case body i s of Inl e \<Rightarrow> Inl e | Inr s' \<Rightarrow> for_range (Suc i) n body s')
      else Inr s)"
  by pat_completeness auto
termination
  by (relation "measure (\<lambda>(i, n, _, _). n - i)") auto

declare for_range.simps [simp del]

lemma for_range_stop [simp]: "n \<le> i \<Longrightarrow> for_range i n body s = Inr s"
  by (simp add: for_range.simps)

lemma for_range_step:
  "i < n \<Longrightarrow> for_range i n body s = ebind (body i s) (for_range (Suc i) n body)"
  by (simp add: for_range.simps ebind_def)

text \<open>
  Every loop of the program has a body that first reads (and may fault), then
  updates the state without faulting: \<open>body j s = ebind (rd j) (\<lambda>x. Inr (h j x s))\<close>.
  Such a loop is a left fold of the update over the read values when all reads succeed,
  and fails with the error of the first read that faults otherwise.
\<close>

lemma for_range_reads:
  assumes body: "\<And>j s. body j s = ebind (rd j) (\<lambda>x. Inr (h j x s))"
    and reads: "\<And>j. i \<le> j \<Longrightarrow> j < n \<Longrightarrow> rd j = Inr (v j)"
  shows "for_range i n body s = Inr (foldl (\<lambda>s j. h j (v j) s) s [i..<n])"
  using reads
proof (induction "n - i" arbitrary: i s)
  case 0
  then show ?case by simp
next
  case (Suc m)
  then have "i < n" and "rd i = Inr (v i)" by simp_all
  with Suc show ?case
    by (simp add: for_range_step upt_conv_Cons body)
qed

lemma for_range_reads_error:
  assumes body: "\<And>j s. body j s = ebind (rd j) (\<lambda>x. Inr (h j x s))"
    and "i \<le> k" "k < n" "rd k = Inl e"
    and "\<And>j. i \<le> j \<Longrightarrow> j < k \<Longrightarrow> \<exists>x. rd j = Inr x"
  shows "for_range i n body s = Inl e"
  using assms(2-)
proof (induction "k - i" arbitrary: i s)
  case 0
  then show ?case by (simp add: for_range_step body)
next
  case (Suc m)
  then obtain x where "rd i = Inr x" by fastforce
  with Suc show ?case by (simp add: for_range_step body)
qed

text \<open>A body that never faults.\<close>

lemma for_range_total:
  "for_range i n (\<lambda>j s. Inr (h j s)) s = Inr (foldl (\<lambda>s j. h j s) s [i..<n])"
  by (rule for_range_reads [where rd = "\<lambda>_. Inr ()" and v = "\<lambda>_. ()"]) simp_all

lemma ebind_assoc: "ebind (ebind m f) g = ebind m (\<lambda>x. ebind (f x) g)"
  by (cases m) simp_all

text \<open>The two shapes of fold the loops produce.\<close>

lemma foldl_update_upt:
  assumes "length r = n"
  shows "foldl (\<lambda>r j. r[j := f j (r ! j)]) r [i..<n]
           = map (\<lambda>j. if i \<le> j then f j (r ! j) else r ! j) [0..<n]"
  using assms
proof (induction "n - i" arbitrary: i r)
  case 0
  then show ?case by (intro nth_equalityI) auto
next
  case (Suc m)
  then have "i < n" by simp
  have "foldl (\<lambda>r j. r[j := f j (r ! j)]) r [i..<n]
          = foldl (\<lambda>r j. r[j := f j (r ! j)]) (r[i := f i (r ! i)]) [Suc i..<n]"
    using \<open>i < n\<close> by (simp add: upt_conv_Cons)
  also have "\<dots> = map (\<lambda>j. if Suc i \<le> j then f j (r[i := f i (r ! i)] ! j)
                              else r[i := f i (r ! i)] ! j) [0..<n]"
    using Suc by simp
  also have "\<dots> = map (\<lambda>j. if i \<le> j then f j (r ! j) else r ! j) [0..<n]"
    using Suc.prems \<open>i < n\<close> by (auto simp: nth_list_update not_less_eq_eq dest: le_antisym)
  finally show ?case .
qed

lemma foldl_accumulate_upt:
  "foldl (\<lambda>s j. g s (v j)) s [i..<n] = foldl g s (map v [i..<n])"
  by (simp add: foldl_map)

subsection \<open>Loops that read one or two vectors\<close>

text \<open>Reading \<open>a[i]\<close> and then \<open>b[i]\<close>; the first read past the end faults.\<close>

definition subscript2 :: "'a list \<Rightarrow> 'b list \<Rightarrow> nat \<Rightarrow> ('a \<times> 'b) result" where
  "subscript2 a b i = ebind (subscript a i) (\<lambda>x. ebind (subscript b i) (\<lambda>y. Inr (x, y)))"

lemma subscript2_in_range [simp]: "i < length a \<Longrightarrow> i < length b \<Longrightarrow> subscript2 a b i = Inr (a ! i, b ! i)"
  by (simp add: subscript2_def)

lemma subscript2_ebind: "ebind (subscript2 a b i) f = ebind (subscript a i) (\<lambda>x. ebind (subscript b i) (\<lambda>y. f (x, y)))"
  by (simp add: subscript2_def ebind_assoc)

lemma map2_upt: "length a \<le> length b \<Longrightarrow> map (\<lambda>j. f (a ! j) (b ! j)) [0..<length a] = map2 f a b"
  by (intro nth_equalityI) auto

lemma map_upt: "map (\<lambda>j. f (a ! j)) [0..<length a] = map f a"
  by (intro nth_equalityI) auto

lemma foldl_conj: "foldl (\<lambda>acc x. acc \<and> P x) b xs \<longleftrightarrow> b \<and> (\<forall>x \<in> set xs. P x)"
  by (induction xs arbitrary: b) auto

lemma map_upt_nth: "length s = n \<Longrightarrow> map (\<lambda>j. g j (s ! j)) [0..<n] = map2 (\<lambda>j x. g j x) [0..<n] s"
  by (intro nth_equalityI) auto

text \<open>
  A loop over \<open>i < n\<close> whose body reads \<open>a[i]\<close> and updates slot \<open>i\<close> of the
  state: it maps over the state when \<open>a\<close> is long enough, and faults at
  \<open>a[size(a)]\<close> otherwise.
\<close>

lemma for_range_map_read:
  assumes body: "\<And>j s. body j s = ebind (subscript a j) (\<lambda>x. Inr (s[j := g x (s ! j)]))"
    and len: "length s = n"
  shows "for_range 0 n body s =
           (if n \<le> length a then Inr (map (\<lambda>j. g (a ! j) (s ! j)) [0..<n])
            else Inl (Out_of_range (length a)))"
proof (cases "n \<le> length a")
  case True
  have "for_range 0 n body s = Inr (foldl (\<lambda>s j. s[j := g (a ! j) (s ! j)]) s [0..<n])"
    by (rule for_range_reads [where rd = "subscript a" and v = "\<lambda>j. a ! j" and h = "\<lambda>j x s. s[j := g x (s ! j)]"]) (use True in \<open>simp_all add: body\<close>)
  also have "\<dots> = Inr (map (\<lambda>j. g (a ! j) (s ! j)) [0..<n])"
    using foldl_update_upt [OF len, of "\<lambda>j x. g (a ! j) x" 0] by simp
  finally show ?thesis using True by simp
next
  case False
  have "for_range 0 n body s = Inl (Out_of_range (length a))"
    by (rule for_range_reads_error [where rd = "subscript a" and k = "length a"])
       (use False in \<open>simp_all add: body\<close>)
  with False show ?thesis by simp
qed

text \<open>The same for a body that reads \<open>a[i]\<close> and \<open>b[i]\<close>, for \<open>i < size(a)\<close>.\<close>

lemma for_range_map_read2:
  assumes body: "\<And>j s. body j s = ebind (subscript2 a b j) (\<lambda>p. Inr (s[j := g p (s ! j)]))"
    and len: "length s = length a"
  shows "for_range 0 (length a) body s =
           (if length a \<le> length b then Inr (map (\<lambda>j. g (a ! j, b ! j) (s ! j)) [0..<length a])
            else Inl (Out_of_range (length b)))"
proof (cases "length a \<le> length b")
  case True
  have "for_range 0 (length a) body s
          = Inr (foldl (\<lambda>s j. s[j := g (a ! j, b ! j) (s ! j)]) s [0..<length a])"
    by (rule for_range_reads [where rd = "subscript2 a b" and v = "\<lambda>j. (a ! j, b ! j)" and h = "\<lambda>j p s. s[j := g p (s ! j)]"])
       (use True in \<open>simp_all add: body\<close>)
  also have "\<dots> = Inr (map (\<lambda>j. g (a ! j, b ! j) (s ! j)) [0..<length a])"
    using foldl_update_upt [OF len, of "\<lambda>j x. g (a ! j, b ! j) x" 0] by simp
  finally show ?thesis using True by simp
next
  case False
  have "for_range 0 (length a) body s = Inl (Out_of_range (length b))"
    by (rule for_range_reads_error [where rd = "subscript2 a b" and k = "length b"])
       (use False in \<open>simp_all add: body subscript2_def\<close>)
  with False show ?thesis by simp
qed

text \<open>A loop over \<open>i < size(a)\<close> that accumulates over \<open>a[i]\<close> and \<open>b[i]\<close>.\<close>

lemma for_range_fold_read2:
  assumes body: "\<And>j s. body j s = ebind (subscript2 a b j) (\<lambda>p. Inr (g s p))"
  shows "for_range 0 (length a) body s =
           (if length a \<le> length b then Inr (foldl g s (zip a b))
            else Inl (Out_of_range (length b)))"
proof (cases "length a \<le> length b")
  case True
  have "for_range 0 (length a) body s = Inr (foldl (\<lambda>s j. g s (a ! j, b ! j)) s [0..<length a])"
    by (rule for_range_reads [where rd = "subscript2 a b" and v = "\<lambda>j. (a ! j, b ! j)" and h = "\<lambda>j p s. g s p"]) (use True in \<open>simp_all add: body\<close>)
  also have "map (\<lambda>j. (a ! j, b ! j)) [0..<length a] = zip a b"
    using True by (intro nth_equalityI) auto
  then have "foldl (\<lambda>s j. g s (a ! j, b ! j)) s [0..<length a] = foldl g s (zip a b)"
    by (metis foldl_accumulate_upt)
  finally show ?thesis using True by simp
next
  case False
  have "for_range 0 (length a) body s = Inl (Out_of_range (length b))"
    by (rule for_range_reads_error [where rd = "subscript2 a b" and k = "length b"])
       (use False in \<open>simp_all add: body subscript2_def\<close>)
  with False show ?thesis by simp
qed

end
