(* ===== verification/Double.thy ===== *)
theory Double
  imports Complex_Main
begin

text \<open>
  The scalar type \<open>double\<close> of \<open>point = mvector<double>\<close> and of every
  \<open>double\<close> the vector code computes (\<open>length_sq\<close>, \<open>length\<close>, the scalar
  of \<open>*=\<close> and \<open>/=\<close>). Finite values are exact reals: rounding is idealised away,
  so the theorems on finite values are the real-number contracts that IEEE arithmetic
  approximates. The non-finite values and their rules are IEEE 754's: \<open>\<pm>\<infinity>\<close> and
  NaN, with \<open>x / 0 = \<pm>\<infinity>\<close>, \<open>0 / 0 = 0 * \<infinity> = \<infinity> - \<infinity> = NaN\<close>,
  \<open>sqrt\<close> of a negative number NaN, and every comparison with NaN false.
  There is one zero (IEEE's \<open>-0.0\<close> is not modelled), read as \<open>+0.0\<close> when it
  divides.
\<close>

datatype double = Fin real | PInf | NInf | NaN

fun is_fin :: "double \<Rightarrow> bool" where
  "is_fin (Fin _) = True"
| "is_fin _ = False"

fun val :: "double \<Rightarrow> real" where
  "val (Fin r) = r"
| "val _ = 0"

text \<open>The sign bit; the single zero has a clear sign bit.\<close>

fun sign_bit :: "double \<Rightarrow> bool" where
  "sign_bit (Fin r) = (r < 0)"
| "sign_bit NInf = True"
| "sign_bit _ = False"

fun is_inf :: "double \<Rightarrow> bool" where
  "is_inf PInf = True"
| "is_inf NInf = True"
| "is_inf _ = False"

definition signed_inf :: "bool \<Rightarrow> double" where
  "signed_inf neg = (if neg then NInf else PInf)"

fun dneg :: "double \<Rightarrow> double" where
  "dneg (Fin r) = Fin (- r)"
| "dneg PInf = NInf"
| "dneg NInf = PInf"
| "dneg NaN = NaN"

fun dadd :: "double \<Rightarrow> double \<Rightarrow> double" where
  "dadd NaN _ = NaN"
| "dadd _ NaN = NaN"
| "dadd PInf NInf = NaN"
| "dadd NInf PInf = NaN"
| "dadd PInf _ = PInf"
| "dadd NInf _ = NInf"
| "dadd _ PInf = PInf"
| "dadd _ NInf = NInf"
| "dadd (Fin a) (Fin b) = Fin (a + b)"

text \<open>IEEE defines \<open>a - b\<close> as \<open>a + (-b)\<close>, special values included.\<close>

definition dsub :: "double \<Rightarrow> double \<Rightarrow> double" where
  "dsub a b = dadd a (dneg b)"

definition dmul :: "double \<Rightarrow> double \<Rightarrow> double" where
  "dmul a b =
     (if a = NaN \<or> b = NaN \<or> (a = Fin 0 \<and> is_inf b) \<or> (is_inf a \<and> b = Fin 0) then NaN
      else if is_inf a \<or> is_inf b then signed_inf (sign_bit a \<noteq> sign_bit b)
      else Fin (val a * val b))"

definition ddiv :: "double \<Rightarrow> double \<Rightarrow> double" where
  "ddiv a b =
     (if a = NaN \<or> b = NaN \<or> (a = Fin 0 \<and> b = Fin 0) \<or> (is_inf a \<and> is_inf b) then NaN
      else if is_inf a \<or> b = Fin 0 then signed_inf (sign_bit a \<noteq> sign_bit b)
      else if is_inf b then Fin 0
      else Fin (val a / val b))"

text \<open>\<open>std::sqrt\<close> and \<open>std::fabs\<close>.\<close>

fun dsqrt :: "double \<Rightarrow> double" where
  "dsqrt (Fin r) = (if r < 0 then NaN else Fin (sqrt r))"
| "dsqrt PInf = PInf"
| "dsqrt NInf = NaN"
| "dsqrt NaN = NaN"

fun dabs :: "double \<Rightarrow> double" where
  "dabs (Fin r) = Fin \<bar>r\<bar>"
| "dabs NaN = NaN"
| "dabs _ = PInf"

text \<open>The ordered comparison \<open><\<close>: false whenever an operand is NaN.\<close>

fun dless :: "double \<Rightarrow> double \<Rightarrow> bool" where
  "dless NaN _ = False"
| "dless _ NaN = False"
| "dless (Fin a) (Fin b) = (a < b)"
| "dless NInf b = (b \<noteq> NInf)"
| "dless a PInf = (a \<noteq> PInf)"
| "dless _ _ = False"

text \<open>
  The C++ operators on \<open>double\<close> are the library's operator classes at this type,
  so the generic vector operations of \<open>MVector\<close> apply to \<open>double\<close> unchanged.
\<close>

instantiation double :: "{zero, one, plus, minus, uminus, times, inverse, ord}"
begin

definition zero_double :: double where "zero_double = Fin 0"
definition one_double :: double where "one_double = Fin 1"
definition plus_double :: "double \<Rightarrow> double \<Rightarrow> double" where "plus_double = dadd"
definition minus_double :: "double \<Rightarrow> double \<Rightarrow> double" where "minus_double = dsub"
definition uminus_double :: "double \<Rightarrow> double" where "uminus_double = dneg"
definition times_double :: "double \<Rightarrow> double \<Rightarrow> double" where "times_double = dmul"
definition divide_double :: "double \<Rightarrow> double \<Rightarrow> double" where "divide_double = ddiv"
definition inverse_double :: "double \<Rightarrow> double" where "inverse_double x = ddiv (Fin 1) x"
definition less_double :: "double \<Rightarrow> double \<Rightarrow> bool" where "less_double = dless"
definition less_eq_double :: "double \<Rightarrow> double \<Rightarrow> bool" where
  "less_eq_double a b = (dless a b \<or> (a = b \<and> a \<noteq> NaN))"

instance ..

end

lemmas double_ops = zero_double_def one_double_def plus_double_def minus_double_def
  uminus_double_def times_double_def divide_double_def less_double_def less_eq_double_def

subsection \<open>Finite values compute as reals\<close>

lemma double_zero_one [simp]: "(0::double) = Fin 0" "(1::double) = Fin 1"
  by (simp_all add: double_ops)

lemma Fin_arith [simp]:
  fixes a b :: real
  shows "Fin a + Fin b = Fin (a + b)"
  "Fin a - Fin b = Fin (a - b)"
  "- Fin a = Fin (- a)"
  "Fin a * Fin b = Fin (a * b)"
  "b \<noteq> 0 \<Longrightarrow> Fin a / Fin b = Fin (a / b)"
  "Fin a < Fin b \<longleftrightarrow> a < b"
  "Fin a \<le> Fin b \<longleftrightarrow> a \<le> b"
  by (auto simp: double_ops dsub_def dmul_def ddiv_def)

lemma NaN_arith [simp]:
  "NaN + x = NaN" "x + NaN = NaN" "NaN * x = NaN" "x * NaN = NaN"
  "NaN - x = NaN" "x - NaN = NaN" "- NaN = NaN" "NaN / x = NaN" "x / NaN = NaN"
  "\<not> NaN < x" "\<not> x < NaN"
  by (cases x; simp add: double_ops dsub_def dmul_def ddiv_def)+

text \<open>Division of a non-zero finite value by zero, and \<open>0 * \<infinity>\<close>.\<close>

lemma Fin_div_zero [simp]:
  "Fin a / Fin 0 = (if a = 0 then NaN else if a < 0 then NInf else PInf)"
  by (simp add: double_ops ddiv_def signed_inf_def)

lemma inf_times_Fin [simp]:
  "PInf * Fin a = (if a = 0 then NaN else if a < 0 then NInf else PInf)"
  "NInf * Fin a = (if a = 0 then NaN else if a < 0 then PInf else NInf)"
  by (simp_all add: double_ops dmul_def signed_inf_def)

lemma double_add_zero [simp]: "Fin 0 + x = x" "x + Fin 0 = x"
  by (cases x; simp add: double_ops)+

lemma dsqrt_Fin [simp]: "0 \<le> r \<Longrightarrow> dsqrt (Fin r) = Fin (sqrt r)"
  by simp

lemma dabs_Fin [simp]: "dabs (Fin r) = Fin \<bar>r\<bar>"
  by simp

end
