(* ===== verification/CInt.thy ===== *)
theory CInt
  imports Double
begin

text \<open>
  The scalar type \<open>int\<close> of \<open>color = mvector<int>\<close> on a platform with 32-bit
  \<open>int\<close>. C++ gives no result to a signed operation that overflows, to a division
  by zero, or to a conversion from \<open>double\<close> whose truncated value is out of range:
  the behaviour is undefined. The model keeps such a result as the value \<open>Undef\<close>,
  which every later operation propagates, so a vector that holds \<open>Undef\<close> is one whose
  computation had undefined behaviour. Division truncates towards zero as in C++, not
  towards minus infinity as HOL's \<open>div\<close> on \<open>int\<close>.
\<close>

datatype cint = CInt int | Undef

definition INT_MIN :: int where "INT_MIN = - (2 ^ 31)"
definition INT_MAX :: int where "INT_MAX = 2 ^ 31 - 1"

definition in_int_range :: "int \<Rightarrow> bool" where
  "in_int_range i \<longleftrightarrow> INT_MIN \<le> i \<and> i \<le> INT_MAX"

definition mk_int :: "int \<Rightarrow> cint" where
  "mk_int i = (if in_int_range i then CInt i else Undef)"

fun cint_lift2 :: "(int \<Rightarrow> int \<Rightarrow> int) \<Rightarrow> cint \<Rightarrow> cint \<Rightarrow> cint" where
  "cint_lift2 f (CInt a) (CInt b) = mk_int (f a b)"
| "cint_lift2 f _ _ = Undef"

text \<open>C++ \<open>a / b\<close> on \<open>int\<close>: the quotient truncated towards zero.\<close>

definition tdiv :: "int \<Rightarrow> int \<Rightarrow> int" where
  "tdiv a b = sgn a * sgn b * (\<bar>a\<bar> div \<bar>b\<bar>)"

fun cint_div :: "cint \<Rightarrow> cint \<Rightarrow> cint" where
  "cint_div (CInt a) (CInt b) = (if b = 0 then Undef else mk_int (tdiv a b))"
| "cint_div _ _ = Undef"

fun cint_neg :: "cint \<Rightarrow> cint" where
  "cint_neg (CInt a) = mk_int (- a)"
| "cint_neg Undef = Undef"

instantiation cint :: "{zero, one, plus, minus, uminus, times, inverse}"
begin

definition zero_cint :: cint where "zero_cint = CInt 0"
definition one_cint :: cint where "one_cint = CInt 1"
definition plus_cint :: "cint \<Rightarrow> cint \<Rightarrow> cint" where "plus_cint = cint_lift2 (+)"
definition minus_cint :: "cint \<Rightarrow> cint \<Rightarrow> cint" where "minus_cint = cint_lift2 (-)"
definition uminus_cint :: "cint \<Rightarrow> cint" where "uminus_cint = cint_neg"
definition times_cint :: "cint \<Rightarrow> cint \<Rightarrow> cint" where "times_cint = cint_lift2 (*)"
definition divide_cint :: "cint \<Rightarrow> cint \<Rightarrow> cint" where "divide_cint = cint_div"
definition inverse_cint :: "cint \<Rightarrow> cint" where "inverse_cint x = cint_div (CInt 1) x"

instance ..

end

lemmas cint_ops = zero_cint_def one_cint_def plus_cint_def minus_cint_def uminus_cint_def
  times_cint_def divide_cint_def

text \<open>Conversions: \<open>int\<close> to \<open>double\<close> is exact; \<open>double\<close> to \<open>int\<close> truncates.\<close>

fun double_of_cint :: "cint \<Rightarrow> double" where
  "double_of_cint (CInt i) = Fin (of_int i)"
| "double_of_cint Undef = NaN"

definition truncate :: "real \<Rightarrow> int" where
  "truncate r = (if 0 \<le> r then \<lfloor>r\<rfloor> else \<lceil>r\<rceil>)"

fun cint_of_double :: "double \<Rightarrow> cint" where
  "cint_of_double (Fin r) = mk_int (truncate r)"
| "cint_of_double _ = Undef"

subsection \<open>Computing with defined values\<close>

lemma cint_zero_one [simp]: "(0::cint) = CInt 0" "(1::cint) = CInt 1"
  by (simp_all add: cint_ops)

lemma CInt_arith [simp]:
  "CInt a + CInt b = mk_int (a + b)"
  "CInt a - CInt b = mk_int (a - b)"
  "- CInt a = mk_int (- a)"
  "CInt a * CInt b = mk_int (a * b)"
  "CInt a / CInt b = (if b = 0 then Undef else mk_int (tdiv a b))"
  by (simp_all add: cint_ops)

lemma Undef_arith [simp]:
  "Undef + x = Undef" "x + Undef = Undef" "Undef - x = Undef" "x - Undef = Undef"
  "Undef * x = Undef" "x * Undef = Undef" "- Undef = Undef"
  "Undef / x = Undef" "x / Undef = Undef"
  by (cases x; simp add: cint_ops)+

lemma in_int_range_iff: "in_int_range i \<longleftrightarrow> - 2147483648 \<le> i \<and> i \<le> 2147483647"
  by (simp add: in_int_range_def INT_MIN_def INT_MAX_def)

lemma in_int_range_0 [simp]: "in_int_range 0"
  by (simp add: in_int_range_def INT_MIN_def INT_MAX_def)

lemma mk_int_in_range [simp]: "in_int_range i \<Longrightarrow> mk_int i = CInt i"
  by (simp add: mk_int_def)

lemma mk_int_out_of_range [simp]: "\<not> in_int_range i \<Longrightarrow> mk_int i = Undef"
  by (simp add: mk_int_def)

lemma mk_int_eq_CInt [simp]: "mk_int i = CInt j \<longleftrightarrow> in_int_range i \<and> j = i"
  by (auto simp: mk_int_def)

lemma tdiv_small: "\<bar>a\<bar> < \<bar>b\<bar> \<Longrightarrow> tdiv a b = 0"
  by (simp add: tdiv_def)

end
