(* ===== verification/MVector.thy ===== *)
theory MVector
  imports Prelude Double
begin

text \<open>
  The template \<open>mvector<T>\<close> of \<open>src/vector_test.cpp\<close>, a \<open>std::vector<T>\<close> with
  arithmetic, for any scalar type \<open>T\<close> that has the C++ operators the code uses: the
  operations are polymorphic in \<open>'a\<close> with the library's operator classes, so one
  definition serves \<open>point = mvector<double>\<close>, \<open>color = mvector<int>\<close>, and the
  exact types \<open>real\<close> and \<open>int\<close> that the abstract specification uses.
  \<open>mvector<T> r(n)\<close> value-initialises its \<open>n\<close> elements to \<open>T()\<close>, that is
  \<open>0\<close>. Member operators that mutate the receiver (\<open>+=\<close>, \<open>-=\<close>, \<open>*=\<close>,
  \<open>/=\<close>) take the receiver and return the pair (receiver after the call, value
  returned); the C++ operators return \<open>mvector\<close> by value, so the second component is
  a copy. The implicit conversions between \<open>T\<close> and \<open>double\<close> (in \<open>*=\<close>,
  \<open>/=\<close>, \<open>length_sq\<close>, \<open>near_zero\<close>) are the parameters \<open>to_d\<close> and
  \<open>of_d\<close>; both are the identity for \<open>T = double\<close>.
\<close>

subsection \<open>Member operators\<close>

definition mv_neg :: "'a::{zero, uminus} mvector \<Rightarrow> 'a mvector result" where
  "mv_neg this =
     (let return_value = replicate (length this) 0 in
      for_range 0 (length return_value)
        (\<lambda>i r. ebind (subscript this i) (\<lambda>x. Inr (r[i := - x]))) return_value)"

definition plus_assign :: "'a::plus mvector \<Rightarrow> 'a mvector \<Rightarrow> ('a mvector \<times> 'a mvector) result" where
  "plus_assign this a =
     ebind (for_range 0 (length this) (\<lambda>i r. ebind (subscript a i) (\<lambda>x. Inr (r[i := r ! i + x]))) this)
       (\<lambda>this'. Inr (this', this'))"

definition minus_assign :: "'a::minus mvector \<Rightarrow> 'a mvector \<Rightarrow> ('a mvector \<times> 'a mvector) result" where
  "minus_assign this a =
     ebind (for_range 0 (length this) (\<lambda>i r. ebind (subscript a i) (\<lambda>x. Inr (r[i := r ! i - x]))) this)
       (\<lambda>this'. Inr (this', this'))"

definition times_assign ::
  "('a \<Rightarrow> double) \<Rightarrow> (double \<Rightarrow> 'a) \<Rightarrow> 'a mvector \<Rightarrow> double \<Rightarrow> ('a mvector \<times> 'a mvector) result" where
  "times_assign to_d of_d this t =
     ebind (for_range 0 (length this) (\<lambda>i r. Inr (r[i := of_d (to_d (r ! i) * t)])) this)
       (\<lambda>this'. Inr (this', this'))"

definition divide_assign ::
  "('a \<Rightarrow> double) \<Rightarrow> (double \<Rightarrow> 'a) \<Rightarrow> 'a mvector \<Rightarrow> double \<Rightarrow> ('a mvector \<times> 'a mvector) result" where
  "divide_assign to_d of_d this t =
     ebind (for_range 0 (length this) (\<lambda>i r. Inr (r[i := of_d (to_d (r ! i) / t)])) this)
       (\<lambda>this'. Inr (this', this'))"

text \<open>
  \<open>length_sq\<close> calls the free function \<open>dot\<close>, which the source defines after the
  class (the template is instantiated later); here \<open>dot\<close> comes first.
\<close>

definition dot :: "'a::{zero, plus, times} mvector \<Rightarrow> 'a mvector \<Rightarrow> 'a result" where
  "dot a b =
     for_range 0 (length a)
       (\<lambda>i acc. ebind (subscript a i) (\<lambda>x. ebind (subscript b i) (\<lambda>y. Inr (acc + x * y)))) 0"

definition length_sq :: "('a::{zero, plus, times} \<Rightarrow> double) \<Rightarrow> 'a mvector \<Rightarrow> double result" where
  "length_sq to_d this = ebind (dot this this) (\<lambda>d. Inr (to_d d))"

definition mv_length :: "('a::{zero, plus, times} \<Rightarrow> double) \<Rightarrow> 'a mvector \<Rightarrow> double result" where
  "mv_length to_d this = ebind (length_sq to_d this) (\<lambda>l. Inr (dsqrt l))"

text \<open>\<open>const auto epsilon = 1e-8\<close>, read as the exact real \<open>10\<^sup>-\<^sup>8\<close>.\<close>

definition near_zero_epsilon :: double where
  "near_zero_epsilon = Fin (1 / 10 ^ 8)"

definition near_zero :: "('a \<Rightarrow> double) \<Rightarrow> 'a mvector \<Rightarrow> bool" where
  "near_zero to_d this =
     foldl (\<lambda>return_value elem. return_value \<and> dabs (to_d elem) < near_zero_epsilon) True this"

subsection \<open>Free operators\<close>

definition mv_add :: "'a::{zero, plus} mvector \<Rightarrow> 'a mvector \<Rightarrow> 'a mvector result" where
  "mv_add a b =
     (let return_value = replicate (length a) 0 in
      for_range 0 (length return_value)
        (\<lambda>i r. ebind (subscript a i) (\<lambda>x. ebind (subscript b i) (\<lambda>y. Inr (r[i := r ! i + (x + y)]))))
        return_value)"

definition mv_sub :: "'a::{zero, plus, minus} mvector \<Rightarrow> 'a mvector \<Rightarrow> 'a mvector result" where
  "mv_sub a b =
     (let return_value = replicate (length a) 0 in
      for_range 0 (length return_value)
        (\<lambda>i r. ebind (subscript a i) (\<lambda>x. ebind (subscript b i) (\<lambda>y. Inr (r[i := r ! i + (x - y)]))))
        return_value)"

definition mv_mul :: "'a::{zero, times} mvector \<Rightarrow> 'a mvector \<Rightarrow> 'a mvector result" where
  "mv_mul a b =
     (let return_value = replicate (length a) 0 in
      for_range 0 (length a)
        (\<lambda>i r. ebind (subscript a i) (\<lambda>x. ebind (subscript b i) (\<lambda>y. Inr (r[i := x * y]))))
        return_value)"

text \<open>
  \<open>cross\<close> sizes its result like \<open>a\<close> and assigns slots 0, 1 and 2, reading the
  operands in the order the source writes them.
\<close>

definition cross :: "'a::{zero, times, minus} mvector \<Rightarrow> 'a mvector \<Rightarrow> 'a mvector result" where
  "cross a b =
     (let return_value = replicate (length a) 0 in
      ebind (subscript a 1) (\<lambda>a1. ebind (subscript b 2) (\<lambda>b2. ebind (subscript a 2) (\<lambda>a2. ebind (subscript b 1) (\<lambda>b1.
      ebind (subscript_assign return_value 0 (a1 * b2 - a2 * b1)) (\<lambda>r.
      ebind (subscript b 0) (\<lambda>b0. ebind (subscript a 0) (\<lambda>a0.
      ebind (subscript_assign r 1 (a2 * b0 - a0 * b2)) (\<lambda>r.
      subscript_assign r 2 (a0 * b1 - a1 * b0))))))))))"

definition mv_scale :: "'a::{zero, plus, times} \<Rightarrow> 'a mvector \<Rightarrow> 'a mvector result" where
  "mv_scale t a =
     (let return_value = replicate (length a) 0 in
      for_range 0 (length a)
        (\<lambda>i r. ebind (subscript a i) (\<lambda>x. Inr (r[i := r ! i + t * x]))) return_value)"

definition mv_scale_right :: "'a::{zero, plus, times} mvector \<Rightarrow> 'a \<Rightarrow> 'a mvector result" where
  "mv_scale_right a t = mv_scale t a"

definition mv_div :: "'a::{zero, plus, times, inverse, one} mvector \<Rightarrow> 'a \<Rightarrow> 'a mvector result" where
  "mv_div a t = mv_scale (1 / t) a"

text \<open>\<open>unit_vector\<close> compiles for \<open>T = double\<close> only: for \<open>int\<close> the
  template argument of \<open>a / a.length()\<close> cannot be deduced.\<close>

definition unit_vector :: "double mvector \<Rightarrow> double mvector result" where
  "unit_vector a = ebind (mv_length id a) (\<lambda>l. mv_div a l)"

subsection \<open>What each operation computes\<close>

text \<open>
  One equation per operation, every branch included: an out-of-range read is the
  \<open>Inl\<close> branch, with the index the source reads first past the end.
\<close>

lemma mv_neg_eq [mv_simps]: "mv_neg this = Inr (map uminus this)"
  unfolding mv_neg_def Let_def
  by (subst for_range_map_read [where a = this and g = "\<lambda>x z. - x"]) (auto intro!: nth_equalityI)

lemma plus_assign_eq [mv_simps]:
  "plus_assign this a =
     (if length this \<le> length a then Inr (map2 (+) this a, map2 (+) this a)
      else Inl (Out_of_range (length a)))"
  unfolding plus_assign_def
  by (subst for_range_map_read [where a = a and g = "\<lambda>x z. z + x"])
     (simp_all add: map2_upt [where f = "\<lambda>x y. x + y", symmetric])

lemma minus_assign_eq [mv_simps]:
  "minus_assign this a =
     (if length this \<le> length a then Inr (map2 (-) this a, map2 (-) this a)
      else Inl (Out_of_range (length a)))"
  unfolding minus_assign_def
  by (subst for_range_map_read [where a = a and g = "\<lambda>x z. z - x"])
     (simp_all add: map2_upt [where f = "\<lambda>x y. x - y", symmetric])

lemma times_assign_eq [mv_simps]:
  "times_assign to_d of_d this t =
     Inr (map (\<lambda>x. of_d (to_d x * t)) this, map (\<lambda>x. of_d (to_d x * t)) this)"
  unfolding times_assign_def for_range_total
  using foldl_update_upt [of this "length this" "\<lambda>j x. of_d (to_d x * t)" 0]
    map_upt [of "\<lambda>x. of_d (to_d x * t)" this]
  by simp

lemma divide_assign_eq [mv_simps]:
  "divide_assign to_d of_d this t =
     Inr (map (\<lambda>x. of_d (to_d x / t)) this, map (\<lambda>x. of_d (to_d x / t)) this)"
  unfolding divide_assign_def for_range_total
  using foldl_update_upt [of this "length this" "\<lambda>j x. of_d (to_d x / t)" 0]
    map_upt [of "\<lambda>x. of_d (to_d x / t)" this]
  by simp

lemma dot_eq [mv_simps]:
  "dot a b =
     (if length a \<le> length b then Inr (foldl (\<lambda>acc (x, y). acc + x * y) 0 (zip a b))
      else Inl (Out_of_range (length b)))"
  unfolding dot_def
  by (subst for_range_fold_read2 [where b = b and g = "\<lambda>acc (x, y). acc + x * y"])
     (simp_all add: subscript2_ebind)

lemma mv_add_eq [mv_simps]:
  "mv_add a b =
     (if length a \<le> length b then Inr (map2 (\<lambda>x y. 0 + (x + y)) a b)
      else Inl (Out_of_range (length b)))"
  unfolding mv_add_def Let_def length_replicate
  by (subst for_range_map_read2 [where a = a and b = b and g = "\<lambda>(x, y) z. z + (x + y)"])
     (auto simp: subscript2_ebind intro!: nth_equalityI)

lemma mv_sub_eq [mv_simps]:
  "mv_sub a b =
     (if length a \<le> length b then Inr (map2 (\<lambda>x y. 0 + (x - y)) a b)
      else Inl (Out_of_range (length b)))"
  unfolding mv_sub_def Let_def length_replicate
  by (subst for_range_map_read2 [where a = a and b = b and g = "\<lambda>(x, y) z. z + (x - y)"])
     (auto simp: subscript2_ebind intro!: nth_equalityI)

lemma mv_mul_eq [mv_simps]:
  "mv_mul a b =
     (if length a \<le> length b then Inr (map2 (*) a b)
      else Inl (Out_of_range (length b)))"
  unfolding mv_mul_def Let_def
  by (subst for_range_map_read2 [where a = a and b = b and g = "\<lambda>(x, y) z. x * y"])
     (auto simp: subscript2_ebind intro!: nth_equalityI)

lemma mv_scale_eq [mv_simps]: "mv_scale t a = Inr (map (\<lambda>x. 0 + t * x) a)"
  unfolding mv_scale_def Let_def
  by (subst for_range_map_read [where a = a and g = "\<lambda>x z. z + t * x"])
     (auto intro!: nth_equalityI)

lemma replicate_update3:
  "3 \<le> n \<Longrightarrow> (replicate n z)[0 := x, Suc 0 := y, 2 := w] = [x, y, w] @ replicate (n - 3) z"
proof -
  assume "3 \<le> n"
  then obtain m where "n = 3 + m" using le_Suc_ex by blast
  then have "n = Suc (Suc (Suc m))" by simp
  then show ?thesis by (simp add: numeral_2_eq_2)
qed

lemma cross_eq [mv_simps]:
  "cross a b =
     (if 3 \<le> length a \<and> 3 \<le> length b
      then Inr ([a ! 1 * b ! 2 - a ! 2 * b ! 1, a ! 2 * b ! 0 - a ! 0 * b ! 2,
                 a ! 0 * b ! 1 - a ! 1 * b ! 0] @ replicate (length a - 3) 0)
      else Inl (Out_of_range (if length a < 2 then 1 else 2)))"
proof (cases "3 \<le> length a \<and> 3 \<le> length b")
  case True
  then have "a \<noteq> []" "b \<noteq> []" by auto
  with True have "cross a b = Inr ((replicate (length a) 0)[0 := a ! 1 * b ! 2 - a ! 2 * b ! 1,
               1 := a ! 2 * b ! 0 - a ! 0 * b ! 2, 2 := a ! 0 * b ! 1 - a ! 1 * b ! 0])"
    by (simp add: cross_def)
  with True show ?thesis
    by (simp add: replicate_update3)
next
  case False
  then consider "length a < 2" | "length a = 2" | "3 \<le> length a" "length b < 3" by linarith
  then show ?thesis
  proof cases
    case 1
    then show ?thesis by (simp add: cross_def)
  next
    case 2
    then show ?thesis by (cases "length b \<le> 2") (simp_all add: cross_def)
  next
    case 3
    then show ?thesis by (simp add: cross_def)
  qed
qed

lemma near_zero_eq [mv_simps]:
  "near_zero to_d this \<longleftrightarrow> (\<forall>x \<in> set this. dabs (to_d x) < near_zero_epsilon)"
  by (simp add: near_zero_def foldl_conj)

end
