(* ===== verification/Vector_Spec.thy ===== *)
theory Vector_Spec
  imports MVector
begin

text \<open>
  The abstract specification of the vector operations: vectors over an exact ring
  (\<open>real\<close> for \<open>point\<close>, \<open>int\<close> for \<open>color\<close>) with the textbook definitions, and
  their algebraic laws. The last section shows that the generic loops of \<open>MVector\<close>,
  run at an exact type, compute exactly these functions on the inputs where the C++
  code reads no element out of range.
\<close>

definition vplus :: "'a::plus list \<Rightarrow> 'a list \<Rightarrow> 'a list" where
  "vplus a b = map2 (+) a b"

definition vminus :: "'a::minus list \<Rightarrow> 'a list \<Rightarrow> 'a list" where
  "vminus a b = map2 (-) a b"

definition vscale :: "'a::times \<Rightarrow> 'a list \<Rightarrow> 'a list" where
  "vscale t a = map ((*) t) a"

definition vdot :: "'a::{comm_monoid_add, times} list \<Rightarrow> 'a list \<Rightarrow> 'a" where
  "vdot a b = sum_list (map2 (*) a b)"

definition vcross :: "'a::{times, minus} list \<Rightarrow> 'a list \<Rightarrow> 'a list" where
  "vcross a b = [a ! 1 * b ! 2 - a ! 2 * b ! 1, a ! 2 * b ! 0 - a ! 0 * b ! 2,
                 a ! 0 * b ! 1 - a ! 1 * b ! 0]"

definition vnorm :: "real list \<Rightarrow> real" where
  "vnorm a = sqrt (vdot a a)"

subsection \<open>Laws of the specification\<close>

lemma length_vplus [simp]: "length (vplus a b) = min (length a) (length b)"
  by (simp add: vplus_def)

lemma length_vcross [simp]: "length (vcross a b) = 3"
  by (simp add: vcross_def)

lemma length_vscale [simp]: "length (vscale t a) = length a"
  by (simp add: vscale_def)

lemma vminus_vplus_cancel:
  "length a \<le> length b \<Longrightarrow> vminus (vplus a b) b = (a :: 'a::group_add list)"
  by (intro nth_equalityI) (simp_all add: vplus_def vminus_def)

lemma vdot_self_sum_squares: "vdot a a = (\<Sum>x\<leftarrow>a. x * x)"
  by (induction a) (simp_all add: vdot_def)

lemma vdot_self_nonneg: "0 \<le> vdot a (a :: 'a::linordered_ring list)"
  by (auto simp: vdot_self_sum_squares intro!: sum_list_nonneg)

lemma vdot_self_eq_0: "vdot a a = 0 \<longleftrightarrow> (\<forall>x \<in> set a. x = (0 :: 'a::linordered_ring_strict))"
proof (induction a)
  case Nil
  then show ?case by (simp add: vdot_def)
next
  case (Cons x a)
  have "vdot (x # a) (x # a) = x * x + vdot a a" by (simp add: vdot_def)
  moreover have "0 \<le> vdot a a" by (rule vdot_self_nonneg)
  ultimately show ?case using Cons.IH by (simp add: add_nonneg_eq_0_iff)
qed

lemma vdot_vscale: "vdot (vscale t a) (vscale s b) = t * s * vdot a (b :: 'a::comm_semiring_1 list)"
proof (induction a arbitrary: b)
  case Nil
  then show ?case by (simp add: vdot_def vscale_def)
next
  case (Cons x a)
  then show ?case by (cases b) (simp_all add: vdot_def vscale_def algebra_simps)
qed

lemma vnorm_eq_0: "vnorm a = 0 \<longleftrightarrow> (\<forall>x \<in> set a. x = 0)"
  by (simp add: vnorm_def vdot_self_eq_0)

lemma vnorm_vscale_inverse:
  assumes "\<exists>x \<in> set a. x \<noteq> 0"
  shows "vnorm (vscale (1 / vnorm a) a) = 1"
proof -
  have pos: "0 < vdot a a"
    using assms vdot_self_nonneg [of a] vdot_self_eq_0 [of a] by auto
  have "vdot (vscale (1 / vnorm a) a) (vscale (1 / vnorm a) a) = vdot a a / (sqrt (vdot a a))\<^sup>2"
    by (simp add: vdot_vscale vnorm_def power2_eq_square)
  also have "\<dots> = 1" using pos by simp
  finally show ?thesis by (simp add: vnorm_def)
qed

subsection \<open>The loops compute the specification\<close>

lemma foldl_dot_step:
  "foldl (\<lambda>acc (x, y). acc + x * y) s zs = s + sum_list (map (\<lambda>(x, y). x * y) zs)"
  for s :: "'a::{monoid_add, times}"
  by (induction zs arbitrary: s) (auto simp: add.assoc)

lemma dot_spec:
  "dot a b = (if length a \<le> length b then Inr (vdot a b) else Inl (Out_of_range (length b)))"
  for a b :: "'a::{comm_monoid_add, times} list"
  by (simp add: dot_eq vdot_def foldl_dot_step)

end
