(* ===== verification/Point.thy ===== *)
theory Point
  imports Vector_Spec
begin

text \<open>
  \<open>using point = mvector<double>\<close>: the generic operations at \<open>T = double\<close>, where
  the conversions \<open>to_d\<close> and \<open>of_d\<close> are the identity. On finite inputs every
  operation is the real-number specification of \<open>Vector_Spec\<close> read through
  \<open>Fin\<close> (a functional refinement); the non-finite results the code produces from a
  zero divisor are stated exactly.
\<close>

type_synonym point = "double mvector"

subsection \<open>Refinement of the real specification\<close>

lemma point_add_refines:
  "mv_add (map Fin a) (map Fin b) =
     (if length a \<le> length b then Inr (map Fin (vplus a b)) else Inl (Out_of_range (length b)))"
  by (auto simp: mv_add_eq vplus_def intro!: nth_equalityI)

lemma point_sub_refines:
  "mv_sub (map Fin a) (map Fin b) =
     (if length a \<le> length b then Inr (map Fin (vminus a b)) else Inl (Out_of_range (length b)))"
  by (auto simp: mv_sub_eq vminus_def intro!: nth_equalityI)

lemma point_dot_refines:
  "dot (map Fin a) (map Fin b) =
     (if length a \<le> length b then Inr (Fin (vdot a b)) else Inl (Out_of_range (length b)))"
proof -
  have "foldl (\<lambda>acc (x, y). acc + x * y) (Fin s) (zip (map Fin a) (map Fin b))
          = Fin (foldl (\<lambda>acc (x, y). acc + x * y) s (zip a b))" for s
    by (induction a arbitrary: b s) (auto simp: zip_Cons1 split: list.splits)
  then show ?thesis
    using dot_spec [of a b] by (simp add: dot_eq split: if_splits)
qed

lemma point_scale_refines: "mv_scale (Fin t) (map Fin a) = Inr (map Fin (vscale t a))"
  by (simp add: mv_scale_eq vscale_def)

lemma point_length_sq_refines: "length_sq id (map Fin a) = Inr (Fin (vdot a a))"
  by (simp add: length_sq_def point_dot_refines)

lemma point_length_refines: "mv_length id (map Fin a) = Inr (Fin (vnorm a))"
  by (simp add: mv_length_def point_length_sq_refines vnorm_def vdot_self_nonneg not_less)

lemma point_div_refines:
  "t \<noteq> 0 \<Longrightarrow> mv_div (map Fin a) (Fin t) = Inr (map Fin (vscale (1 / t) a))"
  by (simp add: mv_div_def point_scale_refines)

text \<open>\<open>a / 0\<close>: \<open>1 / 0 = \<infinity>\<close>, then \<open>\<infinity> * x\<close> is \<open>\<pm>\<infinity>\<close>, or NaN where \<open>x = 0\<close>.\<close>

lemma point_div_zero:
  "mv_div (map Fin a) (Fin 0) = Inr (map (\<lambda>x. if x = 0 then NaN else if x < 0 then NInf else PInf) a)"
proof -
  have "Fin 0 + PInf * Fin x = (if x = 0 then NaN else if x < 0 then NInf else PInf)" for x
    by simp
  then show ?thesis by (simp add: mv_div_def mv_scale_eq double_ops ddiv_def signed_inf_def)
qed

subsection \<open>Unit vectors and the near-zero test\<close>

lemma unit_vector_refines:
  "\<exists>x \<in> set a. x \<noteq> 0 \<Longrightarrow> unit_vector (map Fin a) = Inr (map Fin (vscale (1 / vnorm a) a))"
  by (simp add: unit_vector_def point_length_refines point_div_refines vnorm_eq_0)

text \<open>
  C3: \<open>unit_vector\<close> of a zero point (\<open>length() = 0\<close>) is not an error in the
  code: \<open>1 / 0 = \<infinity>\<close> and \<open>\<infinity> * 0 = NaN\<close>, so every element is NaN.
\<close>

lemma unit_vector_zero:
  "unit_vector (replicate n (Fin 0)) = Inr (replicate n NaN)"
proof -
  have "mv_length id (replicate n (Fin 0)) = Inr (Fin 0)"
    using point_length_refines [of "replicate n 0"] by (simp add: vnorm_eq_0)
  moreover have "mv_div (replicate n (Fin 0)) (Fin 0) = Inr (replicate n NaN)"
    using point_div_zero [of "replicate n 0"] by simp
  ultimately show ?thesis by (simp add: unit_vector_def)
qed

text \<open>
  C9: the \<open>near_zero\<close> loop on a finite point holds exactly when every element has
  absolute value below \<open>10\<^sup>-\<^sup>8\<close>.
\<close>

lemma near_zero_Fin:
  "near_zero id (map Fin a) \<longleftrightarrow> (\<forall>x \<in> set a. \<bar>x\<bar> < 1 / 10 ^ 8)"
  by (simp add: near_zero_eq near_zero_epsilon_def)

lemma near_zero_Fin_witness:
  "near_zero id (map Fin [1 / 10 ^ 9, - 1 / 10 ^ 9, 0]) \<and> \<not> near_zero id (map Fin [1 / 10 ^ 7, 0, 0])"
  using near_zero_Fin [of "[1 / 10 ^ 9, - 1 / 10 ^ 9, 0]"] near_zero_Fin [of "[1 / 10 ^ 7, 0, 0]"]
  by simp

text \<open>C10: a point holding a NaN is never near zero (\<open>fabs(NaN) < 1e-8\<close> is false).\<close>

lemma near_zero_NaN: "NaN \<in> set v \<Longrightarrow> \<not> near_zero id v"
  by (auto simp: near_zero_eq intro!: bexI [of _ NaN])

lemma near_zero_NaN_witness: "NaN \<in> set [Fin 0, NaN] \<and> \<not> near_zero id [Fin 0, NaN]"
  using near_zero_NaN [of "[Fin 0, NaN]"] by simp

subsection \<open>Compound assignment\<close>

text \<open>
  C8: \<open>a += b\<close> and \<open>a -= b\<close> on finite points update the receiver to the exact
  elementwise sum and difference, return a copy of it, and read \<open>b[size(b)]\<close> when
  \<open>b\<close> is shorter than \<open>a\<close>.
\<close>

theorem point_plus_assign:
  "plus_assign (map Fin a) (map Fin b) =
     (if length a \<le> length b then Inr (map Fin (vplus a b), map Fin (vplus a b))
      else Inl (Out_of_range (length b)))
   \<and> minus_assign (map Fin a) (map Fin b) =
     (if length a \<le> length b then Inr (map Fin (vminus a b), map Fin (vminus a b))
      else Inl (Out_of_range (length b)))"
  by (auto simp: plus_assign_eq minus_assign_eq vplus_def vminus_def intro!: nth_equalityI)

end
