(* ===== verification/Color.thy ===== *)
theory Color
  imports Vector_Spec CInt
begin

text \<open>
  \<open>using color = mvector<int>\<close>: the generic operations at \<open>T = int\<close>. The
  implicit conversions are \<open>double_of_cint\<close> (\<open>int\<close> to \<open>double\<close>, exact) and
  \<open>cint_of_double\<close> (truncation, undefined out of range). Each element of a result is
  the exact integer result passed through \<open>mk_int\<close>: itself when it fits in 32 bits,
  \<open>Undef\<close> (undefined behaviour) when it overflows.
\<close>

type_synonym color = "cint mvector"

lemma CInt_0_add_mk_int [simp]: "CInt 0 + mk_int s = mk_int s"
  by (cases "in_int_range s") simp_all

lemma CInt_0_mult [simp]: "CInt 0 * CInt x = CInt 0"
  by (simp add: in_int_range_def INT_MIN_def INT_MAX_def)

lemma truncate_of_int_real [simp]: "truncate (real_of_int i) = i"
  by (simp add: truncate_def)

subsection \<open>Exact results, \<open>Undef\<close> on overflow\<close>

text \<open>
  C11: \<open>a + b\<close> on colors is the exact integer sum elementwise, \<open>Undef\<close> where it
  overflows 32 bits, and faults when \<open>b\<close> is shorter.
\<close>

lemma color_add_exact:
  "mv_add (map CInt a) (map CInt b) =
     (if length a \<le> length b then Inr (map mk_int (vplus a b)) else Inl (Out_of_range (length b)))"
  by (auto simp: mv_add_eq vplus_def intro!: nth_equalityI)

text \<open>
  C13: \<open>a / t\<close> is \<open>(1 / t) * a\<close> with \<open>1 / t\<close> an \<open>int\<close> division: zero
  whenever \<open>|t| \<ge> 2\<close>, so every element of a color divided by such a \<open>t\<close> is 0.
\<close>

lemma color_div_zero_vector:
  "2 \<le> \<bar>t\<bar> \<Longrightarrow> mv_div (map CInt a) (CInt t) = Inr (replicate (length a) (CInt 0))"
proof -
  assume "2 \<le> \<bar>t\<bar>"
  then have "(1::cint) / CInt t = CInt 0"
    by (simp add: tdiv_small in_int_range_def INT_MIN_def INT_MAX_def)
  then show ?thesis
    by (auto simp: mv_div_def mv_scale_eq intro!: nth_equalityI)
qed

lemma color_div_zero_vector_witness:
  "2 \<le> \<bar>2 :: int\<bar> \<and> mv_div (map CInt [10, 20]) (CInt 2) = Inr [CInt 0, CInt 0]"
  using color_div_zero_vector [of 2 "[10, 20]"] by simp

text \<open>
  C15: \<open>*= double\<close> on a color multiplies each element in \<open>double\<close> and
  converts the product back to \<open>int\<close>. For an integer factor the product is the
  exact integer product, \<open>Undef\<close> where it leaves 32 bits, and the returned copy
  equals the updated receiver. The hypotheses make the statement hold for IEEE doubles
  as well: 32-bit operands convert exactly, a product within 32 bits is exact in a
  53-bit significand, and one beyond stays beyond after rounding. For a fractional
  factor rounding can change the truncated result (\<open>10 * 0.7\<close>), so none is claimed.
\<close>

lemma color_times_assign:
  "\<forall>x\<in>set a. in_int_range x \<Longrightarrow> in_int_range k \<Longrightarrow>
     times_assign double_of_cint cint_of_double (map CInt a) (Fin (of_int k))
       = Inr (map (\<lambda>x. mk_int (x * k)) a, map (\<lambda>x. mk_int (x * k)) a)"
  by (simp add: times_assign_eq flip: of_int_mult)

theorem color_times_assign_witness:
  "times_assign double_of_cint cint_of_double (map CInt [10, -3]) (Fin (of_int 7))
     = Inr ([CInt 70, CInt (-21)], [CInt 70, CInt (-21)])"
proof -
  have "\<forall>x\<in>set [10, -3 :: int]. in_int_range x" "in_int_range 7" by (simp_all add: in_int_range_iff)
  from color_times_assign [OF this] show ?thesis by (simp add: in_int_range_iff)
qed

text \<open>
  C14: \<open>/= 0.0\<close> on a color divides in \<open>double\<close> (each element becomes
  \<open>\<pm>\<infinity>\<close> or NaN) and converts back, which is undefined for every element: no
  integer division by zero takes place.
\<close>

lemma color_divide_assign_zero:
  "divide_assign double_of_cint cint_of_double (map CInt a) (Fin 0)
     = Inr (replicate (length a) Undef, replicate (length a) Undef)"
  by (auto simp: divide_assign_eq intro!: nth_equalityI)

subsection \<open>\<open>length_sq()\<close> of a color\<close>

text \<open>
  \<open>length_sq()\<close> calls \<open>dot\<close> at \<open>T = int\<close>: the sum of squares is accumulated
  in \<open>int\<close>, exact while every partial sum fits in 32 bits and undefined from the first
  that does not; only then is it converted to \<open>double\<close>.
\<close>

lemma foldl_dot_Undef: "foldl (\<lambda>acc (x, y). acc + x * y) Undef zs = Undef"
  by (induction zs) auto

lemma color_dot_self_acc:
  "0 \<le> s \<Longrightarrow> s \<le> INT_MAX \<Longrightarrow>
     foldl (\<lambda>acc (x, y). acc + x * y) (CInt s) (zip (map CInt c) (map CInt c))
       = (if s + sum_list (map (\<lambda>x. x * x) c) \<le> INT_MAX
          then CInt (s + sum_list (map (\<lambda>x. x * x) c)) else Undef)"
proof (induction c arbitrary: s)
  case Nil
  then show ?case by simp
next
  case (Cons x c)
  have sq: "0 \<le> x * x" by simp
  then have sq_min: "- 2147483648 \<le> x * x" by linarith
  have rest: "0 \<le> sum_list (map (\<lambda>x. x * x) c)" by (induction c) simp_all
  show ?case
  proof (cases "x * x \<le> INT_MAX")
    case False
    then have "CInt x * CInt x = Undef" by (simp add: in_int_range_def)
    with False rest Cons.prems(1) show ?thesis by (simp add: foldl_dot_Undef)
  next
    case sq_ok: True
    then have m: "CInt x * CInt x = CInt (x * x)"
      using sq_min by (simp add: in_int_range_def INT_MIN_def)
    show ?thesis
    proof (cases "s + x * x \<le> INT_MAX")
      case True
      then have "CInt s + CInt (x * x) = CInt (s + x * x)"
        using Cons.prems sq sq_min by (simp add: in_int_range_def INT_MIN_def)
      with m True Cons.IH [of "s + x * x"] Cons.prems sq show ?thesis
        by (simp add: add.assoc)
    next
      case False
      then have "CInt s + CInt (x * x) = Undef" by (simp add: in_int_range_def)
      with m False rest show ?thesis by (simp add: foldl_dot_Undef)
    qed
  qed
qed

lemma color_length_sq_eq:
  "length_sq double_of_cint (map CInt c)
     = Inr (if vdot c c \<le> INT_MAX then Fin (of_int (vdot c c)) else NaN)"
proof -
  have "vdot c c = sum_list (map (\<lambda>x. x * x) c)" by (rule vdot_self_sum_squares)
  moreover have "0 \<le> INT_MAX" by (simp add: INT_MAX_def)
  ultimately show ?thesis
    using color_dot_self_acc [of 0 c] by (simp add: length_sq_def dot_eq)
qed

text \<open>
  C16: when the sum of squares of a color fits in \<open>int\<close>, \<open>length_sq()\<close> is that
  sum exactly.
\<close>

theorem color_length_sq_exact:
  "vdot c c \<le> INT_MAX \<Longrightarrow> length_sq double_of_cint (map CInt c) = Inr (Fin (of_int (vdot c c)))"
  by (simp add: color_length_sq_eq)

theorem color_length_sq_exact_witness:
  "length_sq double_of_cint (map CInt [3, 4]) = Inr (Fin 25)"
proof -
  have "vdot [3, 4 :: int] [3, 4] \<le> INT_MAX" by (simp add: vdot_def INT_MAX_def)
  from color_length_sq_exact [OF this] show ?thesis by (simp add: vdot_def)
qed

text \<open>
  C17: when the sum of squares exceeds \<open>INT_MAX\<close> (already for one component of
  magnitude 46341), the \<open>int\<close> accumulation in \<open>dot\<close> overflows and
  \<open>length_sq()\<close> is undefined; the model's result is NaN.
\<close>

theorem color_length_sq_overflow:
  "INT_MAX < vdot c c \<Longrightarrow> length_sq double_of_cint (map CInt c) = Inr NaN"
  by (simp add: color_length_sq_eq)

theorem color_length_sq_overflow_witness:
  "length_sq double_of_cint (map CInt [46341]) = Inr NaN"
proof -
  have "INT_MAX < vdot [46341 :: int] [46341]" by (simp add: vdot_def INT_MAX_def)
  from color_length_sq_overflow [OF this] show ?thesis .
qed

subsection \<open>Negation\<close>

text \<open>
  C12: \<open>-c\<close> negates every element of a color in \<open>int\<close>; \<open>-INT_MIN\<close>
  overflows, so negating a color that holds \<open>INT_MIN\<close> is undefined there.
\<close>

theorem color_neg:
  "mv_neg (map CInt a) = Inr (map (\<lambda>x. mk_int (- x)) a) \<and> mv_neg [CInt INT_MIN] = Inr [Undef]"
  by (simp add: mv_neg_eq in_int_range_def INT_MIN_def INT_MAX_def)

end
