(* ===== verification/Random_Fill.thy ===== *)
theory Random_Fill
  imports MVector CInt
begin

text \<open>
  \<open>mvector::random()\<close> and \<open>mvector::random(min, max)\<close> (lines 71-87) build a
  \<open>std::uniform_real_distribution<double>\<close> and a fresh, default-constructed
  \<open>std::default_random_engine\<close> on every call, then assign one draw to each element.
  The engine and the distribution are the C++ library's; they are modelled as libstdc++
  implements them: \<open>default_random_engine\<close> is \<open>minstd_rand0\<close>, the Lehmer generator
  \<open>x \<leftarrow> 16807 x mod (2\<^sup>3\<^sup>1 - 1)\<close> with default seed 1, \<open>min() = 1\<close> and
  \<open>max() = 2\<^sup>3\<^sup>1 - 2\<close>; a draw of the distribution on \<open>[a, b)\<close> is
  \<open>generate_canonical<double, 53>() * (b - a) + a\<close>, and \<open>generate_canonical\<close>
  combines \<open>k = max(1, (53 + 30 - 1) / 30) = 2\<close> engine outputs. The engine state is a
  \<open>nat\<close>; its arithmetic is exact (the library computes it without overflow). The
  \<open>double\<close> arithmetic of \<open>generate_canonical\<close> and of the distribution is exact as
  everywhere in this development.
\<close>

definition minstd_a :: nat where "minstd_a = 16807"
definition minstd_m :: nat where "minstd_m = 2147483647"
definition minstd_default_seed :: nat where "minstd_default_seed = 1"
definition minstd_min :: nat where "minstd_min = 1"
definition minstd_max :: nat where "minstd_max = minstd_m - 1"

text \<open>\<open>operator()\<close>: advance the state and return it.\<close>

definition minstd_next :: "nat \<Rightarrow> nat" where
  "minstd_next x = minstd_a * x mod minstd_m"

text \<open>
  \<open>generate_canonical<double, 53>\<close>: \<open>r = max() - min() + 1\<close>,
  \<open>log2r = \<lfloor>log\<^sub>2 r\<rfloor> = 30\<close>, and a loop of \<open>k\<close> draws accumulating
  \<open>sum += (g - min()) * tmp; tmp *= r\<close> (here \<open>acc\<close> for \<open>sum\<close>); a result that reaches 1 is replaced by the
  largest \<open>double\<close> below 1.
\<close>

definition canonical_r :: real where
  "canonical_r = real minstd_max - real minstd_min + 1"

definition canonical_log2r :: nat where
  "canonical_log2r = 30"

definition canonical_k :: nat where
  "canonical_k = max 1 ((53 + canonical_log2r - 1) div canonical_log2r)"

primrec canonical_loop :: "nat \<Rightarrow> real \<Rightarrow> real \<Rightarrow> nat \<Rightarrow> real \<times> real \<times> nat" where
  "canonical_loop 0 acc tmp x = (acc, tmp, x)"
| "canonical_loop (Suc k) acc tmp x =
     (let g = minstd_next x
      in canonical_loop k (acc + real (g - minstd_min) * tmp) (tmp * canonical_r) g)"

definition generate_canonical :: "nat \<Rightarrow> real \<times> nat" where
  "generate_canonical x =
     (case canonical_loop canonical_k 0 1 x of
        (acc, tmp, x') \<Rightarrow> (let ret = acc / tmp in (if 1 \<le> ret then 1 - 1 / 2 ^ 53 else ret, x')))"

definition uniform :: "real \<Rightarrow> real \<Rightarrow> nat \<Rightarrow> real \<times> nat" where
  "uniform a b x = (case generate_canonical x of (c, x') \<Rightarrow> (c * (b - a) + a, x'))"

text \<open>
  The loop \<open>for (T& elem : *this) elem = uniform(random_engine);\<close>: each element is
  overwritten by a draw converted to \<open>T\<close> (\<open>of_d\<close>), the engine threaded through.
\<close>

fun fill_uniform :: "(double \<Rightarrow> 'a) \<Rightarrow> real \<Rightarrow> real \<Rightarrow> nat \<Rightarrow> 'a list \<Rightarrow> 'a list \<times> nat" where
  "fill_uniform of_d a b x [] = ([], x)"
| "fill_uniform of_d a b x (elem # rest) =
     (case uniform a b x of (u, x') \<Rightarrow>
        (case fill_uniform of_d a b x' rest of (rest', x'') \<Rightarrow> (of_d (Fin u) # rest', x'')))"

definition random :: "(double \<Rightarrow> 'a) \<Rightarrow> 'a mvector \<Rightarrow> 'a mvector \<times> 'a mvector" where
  "random of_d this =
     (case fill_uniform of_d (- 1) 1 minstd_default_seed this of (this', _) \<Rightarrow> (this', this'))"

definition random_range :: "(double \<Rightarrow> 'a) \<Rightarrow> 'a mvector \<Rightarrow> real \<Rightarrow> real \<Rightarrow> 'a mvector \<times> 'a mvector" where
  "random_range of_d this lo hi =
     (case fill_uniform of_d lo hi minstd_default_seed this of (this', _) \<Rightarrow> (this', this'))"

subsection \<open>The engine stays in \<open>[1, m - 1]\<close>\<close>

lemma coprime_minstd: "coprime minstd_m minstd_a"
proof -
  have "coprime (2147483647::nat) 7" by (simp add: coprime_iff_gcd_eq_1 gcd_non_0_nat)
  then show ?thesis
    using coprime_power_right_iff [of "2147483647::nat" 7 5] by (simp add: minstd_m_def minstd_a_def)
qed

lemma minstd_next_range:
  assumes "0 < x" "x < minstd_m"
  shows "0 < minstd_next x \<and> minstd_next x < minstd_m"
proof
  show "minstd_next x < minstd_m" by (simp add: minstd_next_def minstd_m_def)
  show "0 < minstd_next x"
  proof (rule ccontr)
    assume "\<not> 0 < minstd_next x"
    then have "minstd_m dvd minstd_a * x" by (simp add: minstd_next_def mod_eq_0_iff_dvd)
    then have "minstd_m dvd x" using coprime_minstd by (simp add: coprime_dvd_mult_right_iff)
    with assms show False by (auto dest: dvd_imp_le)
  qed
qed

subsection \<open>\<open>generate_canonical\<close> lies in \<open>(0, 1)\<close>\<close>

lemma canonical_consts: "canonical_k = 2" "canonical_r = 2147483646"
  by (simp_all add: canonical_k_def canonical_log2r_def canonical_r_def minstd_max_def
      minstd_min_def minstd_m_def)

lemma minstd_next_1: "minstd_next (Suc 0) = 16807"
  by (simp add: minstd_next_def minstd_a_def minstd_m_def)

lemma generate_canonical_eq:
  "generate_canonical x =
     (let g1 = minstd_next x; g2 = minstd_next g1;
          c = (real (g1 - 1) + real (g2 - 1) * 2147483646) / (2147483646 * 2147483646)
      in (if 1 \<le> c then 1 - 1 / 2 ^ 53 else c, g2))"
  by (simp add: generate_canonical_def canonical_consts numeral_2_eq_2 minstd_min_def Let_def)

lemma generate_canonical_bounds:
  assumes x: "0 < x" "x < minstd_m" and gc: "generate_canonical x = (c, x')"
  shows "0 < c \<and> c < 1 \<and> 0 < x' \<and> x' < minstd_m"
proof -
  define g1 where "g1 = minstd_next x"
  define g2 where "g2 = minstd_next g1"
  define R :: real where "R = 2147483646"
  have g1: "0 < g1" "g1 < minstd_m" using minstd_next_range [OF x] by (simp_all add: g1_def)
  have g2: "0 < g2" "g2 < minstd_m" using minstd_next_range [OF g1] by (simp_all add: g2_def)
  have le1: "real (g1 - 1) \<le> R - 1" and le2: "real (g2 - 1) \<le> R - 1"
    using g1 g2 by (simp_all add: R_def minstd_m_def of_nat_diff)
  have "real (g1 - 1) + real (g2 - 1) * R \<le> (R - 1) + (R - 1) * R"
    using le1 le2 by (intro add_mono mult_right_mono) (simp_all add: R_def)
  then have lt: "real (g1 - 1) + real (g2 - 1) * R < R * R" by (simp add: algebra_simps R_def)
  have pos: "0 < real (g1 - 1) + real (g2 - 1) * R"
  proof (cases "g1 = 1")
    case True
    then have "g2 = 16807" by (simp add: g2_def minstd_next_1)
    then show ?thesis by (simp add: R_def)
  next
    case False
    with g1 have "0 < real (g1 - 1)" by simp
    then show ?thesis by (simp add: R_def add_pos_nonneg)
  qed
  have "generate_canonical x = ((real (g1 - 1) + real (g2 - 1) * R) / (R * R), g2)"
    using lt by (simp add: generate_canonical_eq g1_def g2_def R_def Let_def)
  with gc have "c = (real (g1 - 1) + real (g2 - 1) * R) / (R * R) \<and> x' = g2"
    by auto
  with pos lt g2 show ?thesis by (simp add: R_def)
qed

lemma uniform_bounds:
  assumes "0 < x" "x < minstd_m" "a < b" and u: "uniform a b x = (u, x')"
  shows "a < u \<and> u < b \<and> 0 < x' \<and> x' < minstd_m"
proof -
  obtain c where gc: "generate_canonical x = (c, x')" and uc: "u = c * (b - a) + a"
    using u by (auto simp: uniform_def split: prod.splits)
  from generate_canonical_bounds [OF assms(1,2) gc]
  have c: "0 < c" "c < 1" and x': "0 < x'" "x' < minstd_m" by simp_all
  have "0 < c * (b - a)" and "c * (b - a) < b - a"
    using c \<open>a < b\<close> by (simp_all add: mult_pos_pos)
  with uc x' show ?thesis by simp
qed

subsection \<open>The fill loop\<close>

lemma fill_uniform_length [simp]: "length (fst (fill_uniform of_d a b x v)) = length v"
proof (induction v arbitrary: x)
  case Nil
  then show ?case by simp
next
  case (Cons y v)
  obtain u x' where u: "uniform a b x = (u, x')" by fastforce
  obtain ys x'' where ys: "fill_uniform of_d a b x' v = (ys, x'')" by fastforce
  from Cons.IH [of x'] ys have "length ys = length v" by simp
  with u ys show ?case by simp
qed

text \<open>The loop never reads the elements it overwrites.\<close>

lemma fill_uniform_size_only:
  "length v = length w \<Longrightarrow> fill_uniform of_d a b x v = fill_uniform of_d a b x w"
proof (induction v arbitrary: w x)
  case Nil
  then show ?case by simp
next
  case (Cons y v)
  then obtain z w' where "w = z # w'" and "length v = length w'" by (cases w) auto
  with Cons.IH show ?case by (simp split: prod.splits)
qed

lemma fill_uniform_bounds:
  "0 < x \<Longrightarrow> x < minstd_m \<Longrightarrow> a < b \<Longrightarrow> y \<in> set (fst (fill_uniform of_d a b x v)) \<Longrightarrow>
     \<exists>u. y = of_d (Fin u) \<and> a < u \<and> u < b"
proof (induction v arbitrary: x)
  case Nil
  then show ?case by simp
next
  case (Cons z v)
  obtain u x' where u: "uniform a b x = (u, x')" by fastforce
  from uniform_bounds [OF Cons.prems(1-3) u]
  have bu: "a < u" "u < b" and x': "0 < x'" "x' < minstd_m" by simp_all
  from Cons.prems(4) u have "y = of_d (Fin u) \<or> y \<in> set (fst (fill_uniform of_d a b x' v))"
    by (auto split: prod.splits)
  then show ?case
  proof
    assume "y = of_d (Fin u)"
    with bu show ?thesis by blast
  next
    assume "y \<in> set (fst (fill_uniform of_d a b x' v))"
    from Cons.IH [OF x' Cons.prems(3) this] show ?thesis .
  qed
qed

lemma random_fill [simp]:
  "fst (random of_d v) = fst (fill_uniform of_d (- 1) 1 minstd_default_seed v)"
  "snd (random of_d v) = fst (random of_d v)"
  "fst (random_range of_d v lo hi) = fst (fill_uniform of_d lo hi minstd_default_seed v)"
  "snd (random_range of_d v lo hi) = fst (random_range of_d v lo hi)"
  by (simp_all add: random_def random_range_def split: prod.splits)

lemma default_seed_range: "0 < minstd_default_seed" "minstd_default_seed < minstd_m"
  by (simp_all add: minstd_default_seed_def minstd_m_def)

lemma truncate_unit: "- 1 < u \<Longrightarrow> u < 1 \<Longrightarrow> truncate u = 0"
  by (auto simp: truncate_def floor_eq_iff ceiling_eq_iff)

subsection \<open>What \<open>random\<close> produces\<close>

text \<open>
  C18: a fresh engine with the default seed on every call makes \<open>random()\<close> a function
  of the vector's size alone: two vectors of the same size always receive the same
  "random" elements, and a second call repeats the first.
\<close>

theorem random_same_each_call:
  "length v = length w \<Longrightarrow> random of_d v = random of_d w"
  by (simp add: random_def fill_uniform_size_only [of v w])

theorem random_same_each_call_witness:
  "length [Fin 3, Fin 5] = length [NaN, Fin 0] \<and> random id [Fin 3, Fin 5] = random id [NaN, Fin 0]"
  using random_same_each_call [of "[Fin 3, Fin 5]" "[NaN, Fin 0]" id] by simp

text \<open>
  C19: every element \<open>random()\<close> writes into a point is finite and lies strictly
  between -1 and 1.
\<close>

theorem random_point_bounds:
  "y \<in> set (fst (random id v)) \<Longrightarrow> \<exists>u. y = Fin u \<and> - 1 < u \<and> u < 1"
  using fill_uniform_bounds [OF default_seed_range, of "- 1" 1 y id v] by simp

theorem random_point_bounds_witness:
  "hd (fst (random id [Fin 0])) \<in> set (fst (random id [Fin 0])) \<and>
   (\<exists>u. hd (fst (random id [Fin 0])) = Fin u \<and> - 1 < u \<and> u < 1)"
proof -
  have ne: "fst (random id [Fin 0]) \<noteq> []"
    by (metis fill_uniform_length length_0_conv list.distinct(1) random_fill(1))
  then have h: "hd (fst (random id [Fin 0])) \<in> set (fst (random id [Fin 0]))" by simp
  show ?thesis using h random_point_bounds [OF h] by blast
qed

text \<open>
  C20: on a color, \<open>random()\<close> truncates draws from \<open>(-1, 1)\<close> to \<open>int\<close>: every
  element becomes 0.
\<close>

theorem random_color_zero:
  "random cint_of_double v = (replicate (length v) (CInt 0), replicate (length v) (CInt 0))"
proof -
  have "\<forall>y \<in> set (fst (random cint_of_double v)). y = CInt 0"
  proof
    fix y assume "y \<in> set (fst (random cint_of_double v))"
    then obtain u where "y = cint_of_double (Fin u)" "- 1 < u" "u < 1"
      using fill_uniform_bounds [OF default_seed_range, of "- 1" 1 y cint_of_double v] by auto
    then show "y = CInt 0" by (simp add: truncate_unit)
  qed
  then have "fst (random cint_of_double v) = replicate (length v) (CInt 0)"
    using replicate_length_same [of "fst (random cint_of_double v)" "CInt 0"] by simp
  then show ?thesis by (metis prod.collapse random_fill(2))
qed

text \<open>
  C21: \<open>random(min, max)\<close> on a color with integer bounds
  \<open>0 \<le> min < max \<le> 2\<^sup>2\<^sup>0\<close> yields integers in \<open>[min, max - 1]\<close>: the draw
  lies in \<open>(min, max)\<close> and is truncated, so \<open>max\<close> itself never occurs. The bound
  on \<open>max\<close> makes this hold for IEEE doubles too: over the engine's whole period the
  canonical value stays at least \<open>3.05 \<cdot> 10\<^sup>-\<^sup>1\<^sup>0\<close> from 1 (the closest pair of
  draws is \<open>739806647, 2147483646\<close>), so \<open>c (max - min) + min\<close> stays at least
  that far below \<open>max\<close>, more than the rounding error \<open>max \<cdot> 2\<^sup>-\<^sup>5\<^sup>2\<close> of
  the computation. For bounds near \<open>2\<^sup>3\<^sup>0\<close> rounding reaches \<open>max\<close>.
\<close>

theorem random_range_color_bounds:
  assumes "0 \<le> lo" "lo < hi" "hi \<le> 2 ^ 20"
    and "y \<in> set (fst (random_range cint_of_double v (of_int lo) (of_int hi)))"
  shows "\<exists>k. y = CInt k \<and> lo \<le> k \<and> k < hi"
proof -
  have lohi: "real_of_int lo < real_of_int hi" using assms(2) by simp
  have yin: "y \<in> set (fst (fill_uniform cint_of_double (of_int lo) (of_int hi) minstd_default_seed v))"
    using assms(4) by simp
  obtain u where y: "y = cint_of_double (Fin u)" and u: "of_int lo < u" "u < of_int hi"
    using fill_uniform_bounds [OF default_seed_range lohi yin] by blast
  then have "0 \<le> u" using assms(1) by linarith
  then have t: "truncate u = \<lfloor>u\<rfloor>" by (simp add: truncate_def)
  have "lo \<le> \<lfloor>u\<rfloor>" using u by (simp add: le_floor_iff)
  moreover have "\<lfloor>u\<rfloor> < hi" using u by (simp add: floor_less_iff)
  moreover have "in_int_range \<lfloor>u\<rfloor>"
  proof -
    have "hi \<le> INT_MAX" using assms(3) by (simp add: INT_MAX_def)
    then have "0 \<le> \<lfloor>u\<rfloor>" "\<lfloor>u\<rfloor> \<le> INT_MAX" using calculation assms(1) by linarith+
    then show ?thesis by (simp add: in_int_range_def INT_MIN_def)
  qed
  ultimately show ?thesis using y t by simp
qed

theorem random_range_color_bounds_witness:
  "0 \<le> (0::int) \<and> (0::int) < 256 \<and> (256::int) \<le> 2 ^ 20 \<and>
   hd (fst (random_range cint_of_double [CInt 7] 0 256))
     \<in> set (fst (random_range cint_of_double [CInt 7] (of_int 0) (of_int 256))) \<and>
   (\<exists>k. hd (fst (random_range cint_of_double [CInt 7] 0 256)) = CInt k \<and> 0 \<le> k \<and> k < 256)"
proof -
  have ne: "fst (random_range cint_of_double [CInt 7] 0 256) \<noteq> []"
    by (metis fill_uniform_length length_0_conv list.distinct(1) random_fill(3))
  have h: "hd (fst (random_range cint_of_double [CInt 7] 0 256))
             \<in> set (fst (random_range cint_of_double [CInt 7] (of_int 0) (of_int 256)))"
    using ne by simp
  have b: "0 \<le> (0::int)" "(0::int) < 256" "(256::int) \<le> 2 ^ 20" by simp_all
  show ?thesis using b h random_range_color_bounds [OF b h] by simp
qed

end
