(* ===== verification/Display.thy ===== *)
theory Display
  imports MVector CInt
begin

text \<open>
  \<open>operator<<(std::ostream&, const std::vector<T>&)\<close> (lines 172-183). The stream is
  the text written so far, a \<open>string\<close>; \<open>output << x\<close> for an element appends
  \<open>show_elem x\<close>, the library's formatting of \<open>T\<close>. The loop writes \<open>", "\<close>
  after element \<open>i\<close> when \<open>i < data.size() - 1\<close>; the loop body never runs on an
  empty vector, so the unsigned \<open>size() - 1\<close> never wraps and is the \<open>nat\<close>
  subtraction here. For \<open>int\<close> elements \<open>show_elem\<close> is the decimal notation
  \<open>show_int\<close>; the default formatting of \<open>double\<close> (\<open>%g\<close> with six significant
  digits) is left a parameter.
\<close>

definition print_mv :: "('a \<Rightarrow> string) \<Rightarrow> string \<Rightarrow> 'a list \<Rightarrow> string" where
  "print_mv show_elem output data =
     (let output = output @ ''['';
          output = foldl (\<lambda>out i. out @ show_elem (data ! i)
                                    @ (if i < length data - 1 then '', '' else ''''))
                     output [0..<length data]
      in output @ '']'')"

text \<open>\<open>std::ostream << int\<close>: optional minus sign, then the decimal digits.\<close>

fun digits :: "nat \<Rightarrow> string" where
  "digits n = (if n < 10 then [char_of (48 + n)] else digits (n div 10) @ [char_of (48 + n mod 10)])"

definition show_int :: "int \<Rightarrow> string" where
  "show_int i = (if i < 0 then CHR ''-'' # digits (nat (- i)) else digits (nat i))"

text \<open>
  A \<open>color\<close> element is a 32-bit integer unless its computation had undefined behaviour,
  after which the program's output is not determined; the model prints a marker then.
\<close>

fun show_cint :: "cint \<Rightarrow> string" where
  "show_cint (CInt i) = show_int i"
| "show_cint Undef = ''<undefined>''"

declare digits.simps [simp del]

text \<open>The reference: the element texts joined by a separator.\<close>

fun join :: "string \<Rightarrow> string list \<Rightarrow> string" where
  "join sep [] = []"
| "join sep [x] = x"
| "join sep (x # y # zs) = x @ sep @ join sep (y # zs)"

text \<open>
  A reference reader for what the printer writes: a decimal \<open>int\<close> with an optional
  minus sign, and a vector as \<open>[\<close>, elements separated by \<open>", "\<close>, \<open>]\<close>.
\<close>

definition is_digit :: "char \<Rightarrow> bool" where
  "is_digit c \<longleftrightarrow> (48::nat) \<le> of_char c \<and> of_char c \<le> (57::nat)"

definition nat_of_digits :: "string \<Rightarrow> nat" where
  "nat_of_digits ds = foldl (\<lambda>acc c. 10 * acc + (of_char c - 48)) 0 ds"

fun parse_int :: "string \<Rightarrow> int option" where
  "parse_int [] = None"
| "parse_int (c # ds) =
     (if c = CHR ''-'' then (if ds \<noteq> [] \<and> list_all is_digit ds then Some (- int (nat_of_digits ds)) else None)
      else if list_all is_digit (c # ds) then Some (int (nat_of_digits (c # ds))) else None)"

fun split_comma :: "string \<Rightarrow> string \<Rightarrow> string list" where
  "split_comma cur [] = [cur]"
| "split_comma cur [c] = [cur @ [c]]"
| "split_comma cur (c # d # cs) =
     (if c = CHR '','' \<and> d = CHR '' '' then cur # split_comma [] cs else split_comma (cur @ [c]) (d # cs))"

definition parse_vec :: "string \<Rightarrow> int list option" where
  "parse_vec s =
     (if s \<noteq> [] \<and> hd s = CHR ''['' \<and> tl s \<noteq> [] \<and> last s = CHR '']'' then
        (let body = butlast (tl s) in
         if body = [] then Some [] else those (map parse_int (split_comma [] body)))
      else None)"

subsection \<open>The loop prints the elements separated by commas\<close>

lemma join_Cons: "join sep (x # xs) = x @ (if xs = [] then [] else sep @ join sep xs)"
  by (cases xs) simp_all

lemma foldl_print:
  "foldl (\<lambda>out i. out @ f (data ! i) @ (if i < length data - 1 then sep else [])) out is
     = out @ concat (map (\<lambda>i. f (data ! i) @ (if i < length data - 1 then sep else [])) is)"
  by (induction "is" arbitrary: out) simp_all

lemma print_loop_join:
  "concat (map (\<lambda>i. f (data ! i) @ (if i < length data - 1 then sep else [])) [0..<length data])
     = join sep (map f data)"
proof (induction data)
  case Nil
  then show ?case by simp
next
  case (Cons x xs)
  define G where "G i = f ((x # xs) ! i) @ (if i < length (x # xs) - 1 then sep else [])" for i
  have idx: "[0..<length (x # xs)] = 0 # map Suc [0..<length xs]"
    by (simp only: length_Cons upt_conv_Cons [OF zero_less_Suc] map_Suc_upt)
  have "concat (map G [0..<length (x # xs)]) = G 0 @ concat (map (G \<circ> Suc) [0..<length xs])"
    by (simp only: idx list.map concat.simps map_map)
  also have "map (G \<circ> Suc) [0..<length xs]
               = map (\<lambda>i. f (xs ! i) @ (if i < length xs - 1 then sep else [])) [0..<length xs]"
    by (auto simp: G_def intro!: map_cong)
  also have "G 0 = f x @ (if xs = [] then [] else sep)"
    by (simp add: G_def)
  finally show ?case using Cons.IH by (simp add: G_def join_Cons)
qed

subsection \<open>What the printer writes\<close>

text \<open>
  C22: \<open>output << v\<close> appends \<open>[\<close>, the printed elements separated by
  \<open>", "\<close> with no trailing separator, and \<open>]\<close>.
\<close>

theorem print_mv_join:
  "print_mv show_elem output data = output @ ''['' @ join '', '' (map show_elem data) @ '']''"
  unfolding print_mv_def Let_def foldl_print print_loop_join by simp

subsection \<open>The printed text reads back\<close>

lemma digit_char [simp]: "d < 10 \<Longrightarrow> of_char (char_of (48 + d) :: char) = 48 + (d::nat)"
  by (simp add: of_char_of)

lemma digits_simps:
  "n < 10 \<Longrightarrow> digits n = [char_of (48 + n)]"
  "10 \<le> n \<Longrightarrow> digits n = digits (n div 10) @ [char_of (48 + n mod 10)]"
  by (simp_all add: digits.simps)

lemma digits_props: "digits n \<noteq> [] \<and> list_all is_digit (digits n) \<and> nat_of_digits (digits n) = n"
proof (induction n rule: digits.induct)
  case (1 n)
  show ?case
  proof (cases "n < 10")
    case True
    then show ?thesis by (simp add: digits_simps is_digit_def nat_of_digits_def)
  next
    case False
    then have "digits n = digits (n div 10) @ [char_of (48 + n mod 10)]" by (simp add: digits_simps)
    with "1.IH" False show ?thesis
      by (simp add: is_digit_def nat_of_digits_def)
  qed
qed

lemma digit_not_special: "is_digit c \<Longrightarrow> c \<noteq> CHR '','' \<and> c \<noteq> CHR ''-'' \<and> c \<noteq> CHR '']''"
  by (auto simp: is_digit_def)

lemma parse_show_int: "parse_int (show_int i) = Some i"
proof -
  obtain c cs where d: "digits (nat \<bar>i\<bar>) = c # cs" using digits_props [of "nat \<bar>i\<bar>"] by (cases "digits (nat \<bar>i\<bar>)") auto
  have all: "list_all is_digit (c # cs)" "nat_of_digits (c # cs) = nat \<bar>i\<bar>"
    using digits_props [of "nat \<bar>i\<bar>"] d by simp_all
  then have "c \<noteq> CHR ''-''" using digit_not_special by auto
  with d all show ?thesis
    by (cases "i < 0") (auto simp: show_int_def)
qed

lemma show_int_no_comma: "CHR '','' \<notin> set (show_int i)"
  using digits_props [of "nat (- i)"] digits_props [of "nat i"]
  by (auto simp: show_int_def list_all_iff dest: digit_not_special)

lemma show_int_nonempty: "show_int i \<noteq> []"
  using digits_props by (simp add: show_int_def)

lemma split_comma_last: "CHR '','' \<notin> set x \<Longrightarrow> split_comma cur x = [cur @ x]"
  by (induction cur x rule: split_comma.induct) auto

lemma split_comma_sep:
  "CHR '','' \<notin> set x \<Longrightarrow> split_comma cur (x @ '', '' @ rest) = (cur @ x) # split_comma [] rest"
proof (induction x arbitrary: cur)
  case Nil
  then show ?case by simp
next
  case (Cons a x)
  then have "split_comma cur ((a # x) @ '', '' @ rest) = split_comma (cur @ [a]) (x @ '', '' @ rest)"
    by (cases x) auto
  with Cons show ?case by simp
qed

lemma split_comma_join:
  "ws \<noteq> [] \<Longrightarrow> \<forall>w\<in>set ws. CHR '','' \<notin> set w \<Longrightarrow> split_comma [] (join '', '' ws) = ws"
proof (induction ws)
  case Nil
  then show ?case by simp
next
  case (Cons w ws)
  note IH = Cons.IH
  show ?case
  proof (cases ws)
    case Nil
    with Cons.prems show ?thesis by (simp add: split_comma_last)
  next
    case (Cons v vs)
    have "split_comma [] (w @ '', '' @ join '', '' ws) = w # split_comma [] (join '', '' ws)"
      using Cons.prems(2) split_comma_sep [of w "[]"] by simp
    with Cons IH Cons.prems show ?thesis by (simp add: join_Cons)
  qed
qed

text \<open>
  C23: the text \<open>std::cout << c\<close> writes for a color \<open>c\<close> of defined values
  determines \<open>c\<close>: the reference reader recovers every element, in order.
\<close>

theorem print_parse_roundtrip:
  "parse_vec (print_mv show_cint [] (map CInt xs)) = Some xs"
proof (cases xs)
  case Nil
  then show ?thesis by (simp add: print_mv_def parse_vec_def)
next
  case (Cons y ys)
  have sc: "map show_cint (map CInt xs) = map show_int xs" by (induction xs) simp_all
  have "split_comma [] (join '', '' (map show_int xs)) = map show_int xs"
    using Cons show_int_no_comma by (intro split_comma_join) auto
  moreover have "join '', '' (map show_int xs) \<noteq> []"
    using Cons show_int_nonempty by (simp add: join_Cons)
  moreover have "those (map parse_int (map show_int xs)) = Some xs"
    by (induction xs) (simp_all add: parse_show_int)
  ultimately show ?thesis
    unfolding print_mv_def Let_def foldl_print print_loop_join sc
    by (simp add: parse_vec_def)
qed

end
