(* ===== verification/Pointers.thy ===== *)
theory Pointers
  imports Display "HOL-Library.Word"
begin

text \<open>
  \<open>src/pointer_cheat_sheet.cpp\<close>. Memory is a byte store, addresses are \<open>nat\<close>,
  bytes \<open>8 word\<close>. The platform is the usual one: \<open>sizeof(char) = 1\<close>,
  \<open>sizeof(int) = 4\<close>, \<open>int\<close> stored little-endian in two's complement, \<open>char\<close>
  signed with GCC's wrap-around on conversion back from \<open>int\<close>. \<open>void_pointers\<close>
  casts its untyped pointer by the size it is given and increments the object there; a
  signed \<open>int\<close> increment past \<open>INT_MAX\<close> is undefined behaviour, the result
  \<open>None\<close>. The rest of the file, \<open>declaring_pointers\<close> and the \<open>myfunc\<close>
  overloads, is in \<open>Pointer_Decls\<close>.
\<close>

type_synonym heap = "nat \<Rightarrow> 8 word"

definition sizeof_char :: nat where "sizeof_char = 1"
definition sizeof_int :: nat where "sizeof_int = 4"

text \<open>An unsigned \<open>k\<close>-byte little-endian number at address \<open>p\<close>, read and written.\<close>

primrec load_bytes :: "heap \<Rightarrow> nat \<Rightarrow> nat \<Rightarrow> nat" where
  "load_bytes h p 0 = 0"
| "load_bytes h p (Suc k) = unat (h p) + 256 * load_bytes h (Suc p) k"

primrec store_bytes :: "heap \<Rightarrow> nat \<Rightarrow> nat \<Rightarrow> nat \<Rightarrow> heap" where
  "store_bytes h p 0 n = h"
| "store_bytes h p (Suc k) n = store_bytes (h(p := word_of_nat (n mod 256))) (Suc p) k (n div 256)"

text \<open>\<open>*pint\<close> for \<open>int * pint\<close>: four bytes read as two's complement.\<close>

definition load_int :: "heap \<Rightarrow> nat \<Rightarrow> int" where
  "load_int h p =
     (let v = int (load_bytes h p sizeof_int) in if 2 ^ 31 \<le> v then v - 2 ^ 32 else v)"

definition store_int :: "heap \<Rightarrow> nat \<Rightarrow> int \<Rightarrow> heap" where
  "store_int h p i = store_bytes h p sizeof_int (nat (i mod 2 ^ 32))"

text \<open>\<open>void_pointers(void * data, int size)\<close>, lines 16-25; \<open>size\<close> is \<open>sz\<close>.\<close>

definition void_pointers :: "heap \<Rightarrow> nat \<Rightarrow> int \<Rightarrow> heap option" where
  "void_pointers h data sz =
     (if sz = int sizeof_char then Some (h(data := h data + 1))
      else if sz = int sizeof_int then
        (let v = load_int h data in if v = INT_MAX then None else Some (store_int h data (v + 1)))
      else Some h)"

text \<open>
  \<open>main\<close>, lines 27-36, with \<open>x\<close> at address \<open>px\<close> and \<open>my_str\<close> at \<open>pc\<close>;
  the result is the text written to \<open>std::cout\<close>, or \<open>None\<close> after undefined
  behaviour.
\<close>

definition newline :: string where "newline = [char_of (10::nat)]"

definition main_pointers :: "nat \<Rightarrow> nat \<Rightarrow> heap \<Rightarrow> string option" where
  "main_pointers px pc h0 =
     (let h1 = store_int h0 px 68 in
      case void_pointers h1 px (int sizeof_int) of
        None \<Rightarrow> None
      | Some h2 \<Rightarrow>
          (let out = show_int (load_int h2 px) @ newline;
               h3 = h2(pc := word_of_nat (of_char CHR ''A''))
           in case void_pointers h3 pc (int sizeof_char) of
                None \<Rightarrow> None
              | Some h4 \<Rightarrow> Some (out @ [char_of (unat (h4 pc))] @ newline)))"

subsection \<open>Byte-level lemmas\<close>

lemma store_bytes_frame: "q < p \<or> p + k \<le> q \<Longrightarrow> store_bytes h p k n q = h q"
  by (induction k arbitrary: h p n) auto

lemma load_store_bytes: "load_bytes (store_bytes h p k n) p k = n mod 256 ^ k"
proof (induction k arbitrary: h p n)
  case 0
  then show ?case by simp
next
  case (Suc k)
  have frame: "store_bytes h' (Suc p) k m p = h' p" for h' m
    by (simp add: store_bytes_frame)
  have "load_bytes (store_bytes h p (Suc k) n) p (Suc k)
          = n mod 256 + 256 * ((n div 256) mod 256 ^ k)"
    using Suc.IH by (simp add: frame unat_of_nat)
  also have "\<dots> = n mod 256 ^ Suc k"
    by (simp add: mod_mult2_eq mult.commute)
  finally show ?case .
qed

lemma load_bytes_bound: "load_bytes h p k < 256 ^ k"
proof (induction k arbitrary: p)
  case 0
  then show ?case by simp
next
  case (Suc k)
  have "unat (h p) < 256" using unsigned_less [of "h p"] by simp
  moreover have "load_bytes h (Suc p) k + 1 \<le> 256 ^ k" using Suc.IH [of "Suc p"] by simp
  ultimately show ?case by simp
qed

lemma int_mod_2_32:
  "in_int_range i \<Longrightarrow> i mod 2 ^ 32 = (if i < 0 then i + 2 ^ 32 else i)"
proof -
  assume r: "in_int_range i"
  have "i mod 2 ^ 32 = (if i < 0 then i + 2 ^ 32 else i) mod 2 ^ 32" by simp
  also have "\<dots> = (if i < 0 then i + 2 ^ 32 else i)"
    using r by (intro mod_pos_pos_trivial) (auto simp: in_int_range_iff)
  finally show ?thesis .
qed

lemma load_store_int: "in_int_range i \<Longrightarrow> load_int (store_int h p i) p = i"
proof -
  assume r: "in_int_range i"
  have "int (nat (i mod 2 ^ 32) mod 256 ^ 4) = i mod 2 ^ 32"
    by (simp add: nat_mod_distrib [symmetric] of_nat_mod)
  moreover have "i mod 4294967296 = (if i < 0 then i + 4294967296 else i)"
    using int_mod_2_32 [OF r] by simp
  ultimately show ?thesis
    using r by (simp add: load_int_def store_int_def sizeof_int_def load_store_bytes Let_def
        in_int_range_iff)
qed

lemma load_int_range: "in_int_range (load_int h p)"
proof -
  have "load_bytes h p 4 < 256 ^ 4" by (rule load_bytes_bound)
  then show ?thesis by (auto simp: load_int_def sizeof_int_def Let_def in_int_range_iff)
qed

lemma store_int_frame: "q < p \<or> p + 4 \<le> q \<Longrightarrow> store_int h p i q = h q"
  by (simp add: store_int_def sizeof_int_def store_bytes_frame)

lemma sint_succ_8:
  "sint ((w::8 word) + 1) = (if sint w = 127 then -128 else sint w + 1)"
proof -
  have "sint (w + 1) = signed_take_bit 7 (sint w + 1)"
    by (simp add: sint_word_ariths)
  moreover have "- 128 \<le> sint w" "sint w < 128"
    using sint_ge [of w] sint_lt [of w] by simp_all
  ultimately show ?thesis
    by (auto simp: signed_take_bit_int_eq_self)
qed

subsection \<open>What \<open>void_pointers\<close> and \<open>main\<close> do\<close>

text \<open>
  C24: \<open>main\<close> prints \<open>69\<close> and \<open>B\<close>, each on its own line, wherever its two
  locals are placed and whatever memory held before.
\<close>

theorem main_pointers_output:
  "main_pointers px pc h = Some (''69'' @ newline @ ''B'' @ newline)"
proof -
  have r68: "in_int_range 68" "in_int_range 69" by (simp_all add: in_int_range_iff)
  have "load_int (store_int h px 68) px = 68" using load_store_int [OF r68(1)] .
  moreover have "load_int (store_int (store_int h px 68) px 69) px = 69"
    using load_store_int [OF r68(2)] .
  moreover have "show_int 69 = ''69''" by code_simp
  moreover have "char_of (unat (word_of_nat (of_char CHR ''A'') + 1 :: 8 word)) = CHR ''B''"
    by code_simp
  ultimately show ?thesis
    by (simp add: main_pointers_def void_pointers_def sizeof_int_def sizeof_char_def INT_MAX_def)
qed

text \<open>
  C25: given \<open>sizeof(int)\<close>, \<open>void_pointers\<close> increments the \<open>int\<close> at the
  address by one, unless it holds \<open>INT_MAX\<close>, and leaves every byte outside the
  object's four unchanged.
\<close>

theorem void_pointers_int_increment:
  "load_int h p \<noteq> INT_MAX \<Longrightarrow>
     \<exists>h'. void_pointers h p (int sizeof_int) = Some h' \<and> load_int h' p = load_int h p + 1
        \<and> (\<forall>q. q < p \<or> p + 4 \<le> q \<longrightarrow> h' q = h q)"
proof -
  assume ne: "load_int h p \<noteq> INT_MAX"
  have "in_int_range (load_int h p + 1)"
    using load_int_range [of h p] ne by (auto simp: in_int_range_def INT_MIN_def)
  then show ?thesis
    using ne by (simp add: void_pointers_def sizeof_int_def sizeof_char_def load_store_int
        store_int_frame)
qed

theorem void_pointers_int_increment_witness:
  "load_int (\<lambda>_. 0) 0 = 0 \<and>
   (\<exists>h'. void_pointers (\<lambda>_. 0) 0 (int sizeof_int) = Some h' \<and> load_int h' 0 = 1)"
proof -
  have z: "load_int (\<lambda>_. 0) 0 = 0" by (simp add: load_int_def sizeof_int_def numeral_eq_Suc)
  have "load_int (\<lambda>_. 0) 0 \<noteq> INT_MAX" by (simp add: z INT_MAX_def)
  from void_pointers_int_increment [OF this] show ?thesis by (auto simp: z)
qed

text \<open>
  C26: \<open>void_pointers\<close> has undefined behaviour exactly when it is given
  \<open>sizeof(int)\<close> and the \<open>int\<close> there holds \<open>INT_MAX\<close>: the signed increment
  overflows. The \<open>char\<close> increment never does, and other sizes do nothing.
\<close>

theorem void_pointers_undefined:
  "void_pointers h p sz = None \<longleftrightarrow> sz = int sizeof_int \<and> load_int h p = INT_MAX"
  by (simp add: void_pointers_def sizeof_int_def sizeof_char_def Let_def)

text \<open>
  C27: given \<open>sizeof(char)\<close>, \<open>void_pointers\<close> increments the signed \<open>char\<close>
  at the address, \<open>127\<close> wrapping to \<open>-128\<close>, and changes no other byte.
\<close>

theorem void_pointers_char_wraps:
  "\<exists>h'. void_pointers h p (int sizeof_char) = Some h'
      \<and> sint (h' p) = (if sint (h p) = 127 then -128 else sint (h p) + 1) \<and> (\<forall>q. q \<noteq> p \<longrightarrow> h' q = h q)"
  by (simp add: void_pointers_def sizeof_char_def sint_succ_8)

theorem void_pointers_char_wraps_witness:
  "\<exists>h'. void_pointers (\<lambda>_. 127) 0 (int sizeof_char) = Some h' \<and> sint (h' 0) = -128"
  using void_pointers_char_wraps [of "\<lambda>_. 127" 0] by auto

end
