(* ===== verification/Pointer_Decls.thy ===== *)
theory Pointer_Decls
  imports Pointers
begin

text \<open>
  The declarations of \<open>src/pointer_cheat_sheet.cpp\<close>. \<open>declaring_pointers\<close>
  (lines 4-12) declares an \<open>int\<close> and four pointers to \<open>int\<close> that differ in their
  qualifiers: \<open>const\<close> before the \<open>*\<close> makes the pointee read-only through the
  pointer, \<open>const\<close> after it makes the pointer itself unassignable, and a pointer
  without initialiser holds an indeterminate value. A pointer is a record of the two
  qualifiers and its target address (\<open>None\<close> while indeterminate); a \<open>const\<close>
  pointer declared without initialiser is a compile-time error, \<open>Uninitialised_const\<close>.
  The function reads and writes nothing through its pointers, so it has no observable
  behaviour beyond storing \<open>x\<close>, and no property is stated of it. The three \<open>myfunc\<close> overloads (lines 38-56) take a
  \<open>Shape\<close> by value, by pointer and by reference; \<open>Shape\<close> is never declared, so
  the model takes it as a type parameter \<open>'s\<close> with its \<open>area\<close> member a
  function parameter, and a call of \<open>myfunc\<close> is resolved among the three overloads
  by C++'s ranking of implicit conversion sequences.
\<close>

datatype ptr_error =
    Uninitialised_const
  | Null_dereference
  | Dangling
  | Ambiguous_call
  | No_viable_overload

record int_ptr =
  to_const :: bool
  is_const :: bool
  target :: "nat option"

text \<open>A declaration \<open>[const] int * [const] p [= &x];\<close> (lines 7-11).\<close>

definition declare_ptr :: "bool \<Rightarrow> bool \<Rightarrow> nat option \<Rightarrow> ptr_error + int_ptr" where
  "declare_ptr pointee_const ptr_const init =
     (if ptr_const \<and> init = None then Inl Uninitialised_const
      else Inr \<lparr>to_const = pointee_const, is_const = ptr_const, target = init\<rparr>)"

text \<open>The frame of \<open>declaring_pointers\<close> after its last declaration, \<open>x\<close> at \<open>px\<close>.\<close>

record decl_frame =
  mem :: heap
  x_addr :: nat
  p1 :: int_ptr
  p2 :: int_ptr
  p3 :: int_ptr
  p4 :: int_ptr

definition declaring_pointers :: "heap \<Rightarrow> nat \<Rightarrow> ptr_error + decl_frame" where
  "declaring_pointers h px =
     (let h1 = store_int h px 69 in
      ebind (declare_ptr False False None) (\<lambda>q1.
      ebind (declare_ptr True False None) (\<lambda>q2.
      ebind (declare_ptr False True (Some px)) (\<lambda>q3.
      ebind (declare_ptr True True (Some px)) (\<lambda>q4.
      Inr \<lparr>mem = h1, x_addr = px, p1 = q1, p2 = q2, p3 = q3, p4 = q4\<rparr>)))))"

subsection \<open>The \<open>myfunc\<close> overloads\<close>

text \<open>
  The overload set of lines 40, 45 and 53, the argument expressions a call can pass
  (an lvalue or a prvalue of type \<open>Shape\<close>, a \<open>Shape*\<close>, or \<open>nullptr\<close>), and the
  rank of the implicit conversion sequence from an argument to a parameter.
  \<open>const Shape\<close> and \<open>const Shape&\<close> both accept a \<open>Shape\<close> by an identity
  conversion (exact match); \<open>const Shape*\<close> accepts a \<open>Shape*\<close> by a qualification
  adjustment (exact match) and \<open>nullptr\<close> by a pointer conversion.
\<close>

datatype overload = By_value | By_pointer | By_reference

datatype arg_expr = Shape_lvalue | Shape_prvalue | Shape_pointer | Nullptr

datatype ics_rank = Exact_match | Conversion

fun ics :: "overload \<Rightarrow> arg_expr \<Rightarrow> ics_rank option" where
  "ics By_value Shape_lvalue = Some Exact_match"
| "ics By_value Shape_prvalue = Some Exact_match"
| "ics By_reference Shape_lvalue = Some Exact_match"
| "ics By_reference Shape_prvalue = Some Exact_match"
| "ics By_pointer Shape_pointer = Some Exact_match"
| "ics By_pointer Nullptr = Some Conversion"
| "ics _ _ = None"

definition myfunc_overloads :: "overload list" where
  "myfunc_overloads = [By_value, By_pointer, By_reference]"

text \<open>
  Overload resolution with one argument: the viable overloads are those with a
  conversion sequence; the best are those whose sequence is not worse than any other's.
  No tie-breaker of the standard separates a by-value parameter from a reference one, so
  two best candidates make the call ambiguous.
\<close>

fun rank_le :: "ics_rank \<Rightarrow> ics_rank \<Rightarrow> bool" where
  "rank_le Exact_match _ = True"
| "rank_le Conversion r = (r = Conversion)"

definition resolve :: "arg_expr \<Rightarrow> ptr_error + overload" where
  "resolve e =
     (let viable = filter (\<lambda>f. ics f e \<noteq> None) myfunc_overloads;
          best = filter (\<lambda>f. list_all (\<lambda>g. rank_le (the (ics f e)) (the (ics g e))) viable) viable
      in case best of
           [] \<Rightarrow> Inl No_viable_overload
         | [f] \<Rightarrow> Inr f
         | _ \<Rightarrow> Inl Ambiguous_call)"

text \<open>
  The bodies: each calls \<open>area()\<close> on its parameter and discards the value; the
  pointer overload dereferences its argument first, undefined behaviour for a null or
  dangling pointer. Objects live in a store from addresses to \<open>'s\<close>; a runtime
  argument is an object or a pointer (\<open>None\<close> for null).
\<close>

datatype 's arg_value = Object 's | Pointer "nat option"

fun myfunc_body ::
  "('s \<Rightarrow> 'r) \<Rightarrow> (nat \<Rightarrow> 's option) \<Rightarrow> overload \<Rightarrow> 's arg_value \<Rightarrow> ptr_error + unit" where
  "myfunc_body area objs By_value (Object s) = (let _ = area s in Inr ())"
| "myfunc_body area objs By_reference (Object s) = (let _ = area s in Inr ())"
| "myfunc_body area objs By_pointer (Pointer None) = Inl Null_dereference"
| "myfunc_body area objs By_pointer (Pointer (Some a)) =
     (case objs a of None \<Rightarrow> Inl Dangling | Some s \<Rightarrow> (let _ = area s in Inr ()))"
| "myfunc_body area objs _ _ = Inl No_viable_overload"

definition call_myfunc ::
  "('s \<Rightarrow> 'r) \<Rightarrow> (nat \<Rightarrow> 's option) \<Rightarrow> arg_expr \<Rightarrow> 's arg_value \<Rightarrow> ptr_error + unit" where
  "call_myfunc area objs e v = ebind (resolve e) (\<lambda>f. myfunc_body area objs f v)"

subsection \<open>Calls of \<open>myfunc\<close>\<close>

lemma resolve_eq:
  "resolve Shape_lvalue = Inl Ambiguous_call" "resolve Shape_prvalue = Inl Ambiguous_call"
  "resolve Shape_pointer = Inr By_pointer" "resolve Nullptr = Inr By_pointer"
  by (simp_all add: resolve_def myfunc_overloads_def)

text \<open>
  C28: no call expression selects the by-value overload (line 40) or the by-reference
  overload (line 53): a \<open>Shape\<close> argument, lvalue or prvalue, makes every call
  ambiguous between them, and the remaining arguments select the pointer overload.
\<close>

theorem myfunc_value_reference_unreachable:
  "resolve e \<noteq> Inr By_value \<and> resolve e \<noteq> Inr By_reference
   \<and> call_myfunc area objs Shape_lvalue v = Inl Ambiguous_call
   \<and> call_myfunc area objs Shape_prvalue v = Inl Ambiguous_call"
  by (cases e) (simp_all add: resolve_eq call_myfunc_def)

text \<open>
  C29: a call through the pointer overload succeeds exactly when the pointer refers to
  a live object; \<open>myfunc(nullptr)\<close> compiles and dereferences null.
\<close>

theorem myfunc_pointer_call:
  "call_myfunc area objs Shape_pointer (Pointer p) = Inr () \<longleftrightarrow> (\<exists>a s. p = Some a \<and> objs a = Some s)
   \<and> call_myfunc area objs Nullptr (Pointer None) = Inl Null_dereference"
  by (cases p) (auto simp: resolve_eq call_myfunc_def split: option.splits)

end
