(* ===== verification/Spec2Isabelle.thy ===== *)
theory Spec2Isabelle
  imports Prelude Double CInt MVector Vector_Spec Point Color Random_Fill Display Pointers Pointer_Decls
begin

text \<open>
  \<^bold>\<open>A verification library for \<open>src/vector_test.cpp\<close> (the \<open>mvector<T>\<close> template)
  and \<open>src/pointer_cheat_sheet.cpp\<close>.\<close>

  \<^bold>\<open>The program.\<close> \<open>mvector<T>\<close> derives from \<open>std::vector<T>\<close> and adds vector
  arithmetic: member operators \<open>-v\<close>, \<open>+=\<close>, \<open>-=\<close>, \<open>*= double\<close>,
  \<open>/= double\<close>, \<open>length_sq\<close>, \<open>length\<close>, \<open>near_zero\<close>, \<open>random\<close>; free
  operators \<open>a + b\<close>, \<open>a - b\<close>, \<open>dot\<close>, elementwise \<open>a * b\<close>, \<open>cross\<close>,
  \<open>t * a\<close>, \<open>a * t\<close>, \<open>a / t\<close>, \<open>unit_vector\<close> and a stream printer; two
  instances \<open>point = mvector<double>\<close> and \<open>color = mvector<int>\<close>. Every loop is a
  range-\<open>for\<close> that recovers the index by pointer subtraction and reads the other
  operand with unchecked \<open>operator[]\<close>. \<open>main\<close> prints the length of the unit
  vector of \<open>{1,2,3,4,5}\<close>. \<open>src/pointer_cheat_sheet.cpp\<close> is a separate set of
  examples: \<open>declaring_pointers\<close> declares pointers with each placement of
  \<open>const\<close>, \<open>void_pointers\<close> increments a \<open>char\<close> or an \<open>int\<close> through an
  untyped pointer chosen by a size argument, \<open>main\<close> prints the results, and three
  \<open>myfunc\<close> overloads take a \<open>Shape\<close> by value, pointer and reference.

  \<^bold>\<open>Theories.\<close>
  \<^item> \<open>Prelude\<close>: the error type (\<open>Out_of_range i\<close>: the first read or write past
    the end, undefined behaviour in C++), checked \<open>subscript\<close> and
    \<open>subscript_assign\<close>, the loop combinator \<open>for_range\<close> (a \<open>function\<close>
    terminating by the measure \<open>n - i\<close>) and the lemmas that turn every loop shape of
    the program into a map or a fold (\<open>for_range_map_read\<close>,
    \<open>for_range_map_read2\<close>, \<open>for_range_fold_read2\<close>).
  \<^item> \<open>Double\<close>: the scalar \<open>double\<close> as exact reals plus \<open>\<pm>\<infinity>\<close> and NaN
    under IEEE 754's special-value rules, instantiating the library's operator classes.
    Rounding is idealised away, so theorems on finite values are the real-number
    contracts; there is a single zero (no \<open>-0.0\<close>).
  \<^item> \<open>CInt\<close>: the scalar 32-bit \<open>int\<close>; overflow, division by zero and
    out-of-range \<open>double\<close> to \<open>int\<close> conversion give the poison value \<open>Undef\<close>;
    division truncates towards zero.
  \<^item> \<open>MVector\<close>: every operation of lines 13-170, polymorphic in the scalar type,
    with one equation per operation (\<open>mv_simps\<close>) covering every branch.
  \<^item> \<open>Vector_Spec\<close>: the abstract specification (vectors over an exact ring:
    \<open>vplus\<close>, \<open>vminus\<close>, \<open>vscale\<close>, \<open>vdot\<close>, \<open>vcross\<close>, \<open>vnorm\<close>) and its
    laws, and the lemmas that the loops compute it at exact types.
  \<^item> \<open>Point\<close>: \<open>mvector<double>\<close> refines the real specification through
    \<open>Fin\<close> on finite inputs; division by zero, \<open>unit_vector\<close> of the zero vector and
    NaN in \<open>near_zero\<close> stated exactly.
  \<^item> \<open>Color\<close>: \<open>mvector<int>\<close> computes the exact integer result where it fits
    in 32 bits; \<open>a / t\<close> is the zero vector for \<open>|t| \<ge> 2\<close> because \<open>1 / t\<close> is
    integer division; \<open>/= 0.0\<close> is undefined for every element; negation overflows
    at \<open>INT_MIN\<close>; \<open>*=\<close> by an integer factor is the exact product;
    \<open>length_sq()\<close> is exact exactly while the sum of squares fits in \<open>int\<close>.
  \<^item> \<open>Random_Fill\<close>: \<open>random()\<close> and \<open>random(min, max)\<close>, lines 71-87, with the
    library as libstdc++ implements it: \<open>default_random_engine\<close> is
    \<open>minstd_rand0\<close> (\<open>x' = 16807 x mod (2^31 - 1)\<close>, default seed 1),
    \<open>generate_canonical<double, 53>\<close> combines \<open>k = 2\<close> draws (53 bits over
    \<open>log2(2^31 - 2) = 30\<close> bits per draw, rounded up), and the distribution maps the
    canonical value affinely onto \<open>[a, b)\<close>. The engine is built afresh in every call,
    so each call yields the same vector; the bounds of the draws rest on the engine staying
    in \<open>[1, 2^31 - 2]\<close>, by the coprimality of the multiplier and the prime modulus.
  \<^item> \<open>Display\<close>: \<open>operator<<\<close>, lines 172-183, on the text written so far; it
    is proved equal to the reference \<open>"[" ++ join ", " ++ "]"\<close>, and a reference
    reader (\<open>parse_vec\<close>) recovers a printed color from its text. \<open>int\<close> is
    printed in decimal; the \<open>%g\<close> formatting of \<open>double\<close> is a parameter.
  \<^item> \<open>Pointers\<close>: \<open>pointer_cheat_sheet.cpp\<close> over a byte store
    \<open>nat \<Rightarrow> 8 word\<close>: \<open>int\<close> is four little-endian bytes in two's
    complement (\<open>load_int\<close>, \<open>store_int\<close>: the C++ object representation,
    not code of the file), \<open>char\<close> one signed byte. \<open>void_pointers\<close> returns \<open>None\<close> for the one
    undefined behaviour it has, the increment of an \<open>int\<close> holding \<open>INT_MAX\<close>;
    \<open>main_pointers\<close> returns the text \<open>main\<close> prints.
  \<^item> \<open>Pointer_Decls\<close>: \<open>declaring_pointers\<close> as a frame of four pointer records
    (their two \<open>const\<close> qualifiers and target); the function reads and writes
    nothing through them, so no property is stated of it. The three \<open>myfunc\<close>
    overloads, with \<open>Shape\<close> a type parameter, overload resolution by conversion rank
    (\<open>resolve\<close>, over C++'s rank table \<open>ics\<close>) and the bodies
    (\<open>myfunc_body\<close>): the by-value and by-reference overloads are never callable.
  \<^item> This theory: \<open>main\<close> of \<open>vector_test.cpp\<close> and the properties that
    combine the components: exact arithmetic of points, and the out-of-range behaviour
    on operands of different lengths and its absence on equal lengths.

  \<^bold>\<open>Fuel and bounds.\<close> There is no fuel: every loop of the program is a range-\<open>for\<close>
  over a vector, modelled by \<open>for_range\<close>, whose termination is proved; the random
  draws are a recursion over the element list. Integer bounds are \<open>INT_MIN\<close> and
  \<open>INT_MAX\<close> of a 32-bit \<open>int\<close>; \<open>char\<close> is 8 bits.

  \<^bold>\<open>Correspondence.\<close> A C++ value of type \<open>mvector<T>\<close> is a \<open>'a list\<close>; an
  operation that may read past the end returns \<open>error + 'a\<close>; a member operator that
  mutates \<open>*this\<close> returns the pair (new \<open>*this\<close>, returned copy). Definition names
  follow the source (\<open>dot\<close>, \<open>cross\<close>, \<open>length_sq\<close>, \<open>near_zero\<close>,
  \<open>unit_vector\<close>, \<open>plus_assign\<close> for \<open>operator+=\<close>, \<open>mv_add\<close> for the free
  \<open>operator+\<close>, \<open>mv_length\<close> for \<open>length()\<close>).

  \<^bold>\<open>Not modelled.\<close> Rounding, underflow and \<open>-0.0\<close> of \<open>double\<close>: theorems
  with real results on finite points are the exact real-number contracts, which IEEE
  arithmetic approximates; where a yes/no or integer conclusion could flip under rounding,
  the theorem is restricted to inputs where it cannot (the integer factor of \<open>*=\<close> on
  colors, the bound \<open>max \<le> 2\<^sup>2\<^sup>0\<close> of \<open>random(min, max)\<close>), and no claim
  is made of \<open>length() = 0\<close> or of fractional factors. The \<open>%g\<close> text of a
  printed \<open>double\<close>, so \<open>main\<close> of \<open>vector_test.cpp\<close> is modelled as the value
  it prints (\<open>main_vector_test\<close>) with no property of its own beyond C2; and \<open>Shape\<close> and its \<open>area()\<close>, which the cheat sheet uses but
  never declares, so that the file does not compile as written: the \<open>myfunc\<close>
  overloads are modelled for any type and any \<open>area\<close> function.
\<close>

subsection \<open>\<open>main\<close> of \<open>vector_test.cpp\<close>\<close>

text \<open>
  \<open>mvector<double> a{1,2,3,4,5}; std::cout << unit_vector(a).length() << "\n";\<close>
  (lines 189-192): the value whose printed form \<open>main\<close> writes.
\<close>

definition main_vector_test :: "double result" where
  "main_vector_test = ebind (unit_vector (map Fin [1, 2, 3, 4, 5])) (mv_length id)"

subsection \<open>Points: exact arithmetic on finite inputs\<close>

text \<open>C1: for finite points of equal length, \<open>(a + b) - b\<close> computes \<open>a\<close> exactly.\<close>

theorem point_add_sub_cancel:
  "length a = length b \<Longrightarrow>
     ebind (mv_add (map Fin a) (map Fin b)) (\<lambda>c. mv_sub c (map Fin b)) = Inr (map Fin a)"
proof -
  assume len: "length a = length b"
  then have "mv_add (map Fin a) (map Fin b) = Inr (map Fin (vplus a b))"
    by (simp add: point_add_refines)
  moreover from len have "mv_sub (map Fin (vplus a b)) (map Fin b) = Inr (map Fin a)"
    by (simp add: point_sub_refines vminus_vplus_cancel)
  ultimately show ?thesis by simp
qed

theorem point_add_sub_cancel_witness:
  "length [1, 2, 3 :: real] = length [4, 5, 6 :: real] \<and>
   ebind (mv_add (map Fin [1, 2, 3]) (map Fin [4, 5, 6])) (\<lambda>c. mv_sub c (map Fin [4, 5, 6]))
     = Inr (map Fin [1, 2, 3])"
  using point_add_sub_cancel [of "[1, 2, 3]" "[4, 5, 6]"] by simp



subsection \<open>Operand sizes\<close>

text \<open>
  C4: \<open>a + b\<close> is sized by \<open>a\<close>: when \<open>b\<close> is longer its extra elements are
  ignored.
\<close>

theorem add_truncates_longer_right:
  "length a \<le> length b \<Longrightarrow> mv_add a b = Inr (map2 (\<lambda>x y. 0 + (x + y)) a (take (length a) b))"
  by (auto simp: mv_add_eq intro!: nth_equalityI)

theorem add_truncates_longer_right_witness:
  "length [1, 2 :: int] \<le> length [3, 4, 5 :: int] \<and> mv_add [1, 2 :: int] [3, 4, 5] = Inr [4, 6]"
  using add_truncates_longer_right [of "[1, 2 :: int]" "[3, 4, 5]"] by simp

text \<open>C5: when \<open>b\<close> is shorter than \<open>a\<close>, \<open>a + b\<close> reads \<open>b[size(b)]\<close>.\<close>

theorem add_reads_past_shorter_right:
  "length b < length a \<Longrightarrow> mv_add a b = Inl (Out_of_range (length b))"
  by (simp add: mv_add_eq)

theorem add_reads_past_shorter_right_witness:
  "length [3, 4 :: int] < length [1, 2, 5 :: int] \<and> mv_add [1, 2, 5 :: int] [3, 4] = Inl (Out_of_range 2)"
  using add_reads_past_shorter_right [of "[3, 4 :: int]" "[1, 2, 5]"] by simp

text \<open>
  C6: \<open>cross\<close> on operands longer than 3 does not fail: the result has the length of
  \<open>a\<close>, the cross product of the first three elements, and zeros after it.
\<close>

theorem cross_pads_long_inputs:
  "3 \<le> length a \<Longrightarrow> 3 \<le> length b \<Longrightarrow>
     cross a b = Inr (vcross a b @ replicate (length a - 3) 0)"
  by (simp add: cross_eq vcross_def)

theorem cross_pads_long_inputs_witness:
  "3 \<le> length [1, 0, 0, 7 :: int] \<and> 3 \<le> length [0, 1, 0, 9 :: int] \<and>
   cross [1, 0, 0, 7 :: int] [0, 1, 0, 9] = Inr [0, 0, 1, 0]"
  using cross_pads_long_inputs [of "[1, 0, 0, 7 :: int]" "[0, 1, 0, 9]"] by (simp add: vcross_def)

subsection \<open>Operands of equal length\<close>

text \<open>
  C7: on operands of equal length, no binary operation of \<open>mvector\<close> reads or writes
  out of range (and \<open>cross\<close> none on two 3-vectors): the undefined behaviour of
  C4-C6 needs operands of different lengths.
\<close>

theorem equal_length_no_fault:
  fixes a b :: "'a::{zero, plus, minus, times} mvector"
  assumes "length a = length b"
  shows "(\<exists>r. mv_add a b = Inr r) \<and> (\<exists>r. mv_sub a b = Inr r) \<and> (\<exists>r. mv_mul a b = Inr r)
     \<and> (\<exists>d. dot a b = Inr d) \<and> (\<exists>p. plus_assign a b = Inr p) \<and> (\<exists>p. minus_assign a b = Inr p)
     \<and> (length a = 3 \<longrightarrow> (\<exists>r. cross a b = Inr r))"
  using assms by (simp add: mv_simps)

theorem equal_length_no_fault_witness:
  "\<exists>r. cross [1, 2, 3 :: int] [4, 5, 6] = Inr r"
  using equal_length_no_fault [of "[1, 2, 3 :: int]" "[4, 5, 6]"] by simp

end
